theory Spec2Isabelle
  imports Main "HOL-Library.Word" "HOL-Library.Multiset"
begin

unbundle bit_operations_syntax

section \<open>JavaScript strings\<close>

text \<open>
  A JavaScript string is a sequence of UTF-16 code units. A code unit is modelled by its
  numeric value, an integer: every JavaScript string is a list of values between \<open>0\<close> and
  \<open>65535\<close>, and nothing below depends on that range. Literals of the source that are plain
  ASCII are written \<open>js ''...''\<close>; literals with other text are written as the list of
  their code units.
\<close>

type_synonym jschar = int
type_synonym jsstring = "jschar list"

definition js :: "string \<Rightarrow> jsstring" where
  "js s = map of_char s"

text \<open>
  The class \<open>\s\<close> of a regular expression and the characters removed by \<open>trim()\<close> are the
  same set: the ECMAScript white space and line terminator code points.
\<close>

definition isSpace :: "jschar \<Rightarrow> bool" where
  "isSpace c = (c = 9 \<or> c = 10 \<or> c = 11 \<or> c = 12 \<or> c = 13 \<or> c = 32 \<or> c = 160 \<or>
     c = 5760 \<or> (8192 \<le> c \<and> c \<le> 8202) \<or> c = 8232 \<or> c = 8233 \<or> c = 8239 \<or>
     c = 8287 \<or> c = 12288 \<or> c = 65279)"

definition isLineTerminator :: "jschar \<Rightarrow> bool" where
  "isLineTerminator c = (c = 10 \<or> c = 13 \<or> c = 8232 \<or> c = 8233)"

definition trimStart :: "jsstring \<Rightarrow> jsstring" where
  "trimStart s = dropWhile isSpace s"

definition trimEnd :: "jsstring \<Rightarrow> jsstring" where
  "trimEnd s = rev (dropWhile isSpace (rev s))"

definition trim :: "jsstring \<Rightarrow> jsstring" where
  "trim s = trimEnd (trimStart s)"

definition startsWith :: "jsstring \<Rightarrow> jsstring \<Rightarrow> bool" where
  "startsWith s p = (take (length p) s = p)"

definition endsWith :: "jsstring \<Rightarrow> jsstring \<Rightarrow> bool" where
  "endsWith s p = (length p \<le> length s \<and> drop (length s - length p) s = p)"

fun includes_js :: "jsstring \<Rightarrow> jsstring \<Rightarrow> bool" where
  "includes_js [] p = (p = [])"
| "includes_js (c # cs) p = (startsWith (c # cs) p \<or> includes_js cs p)"

text \<open>
  \<open>toLowerCase\<close>. The ASCII capitals are shifted; the Kelvin sign and the dotted capital
  I are the two code units outside ASCII whose lower-case form contains an ASCII letter.
  Every other code unit outside ASCII is left as it is: its lower-case form stays outside
  ASCII, and this program inspects lower-cased text through ASCII patterns only.
\<close>

definition lowerChar :: "jschar \<Rightarrow> jschar" where
  "lowerChar c = (if 65 \<le> c \<and> c \<le> 90 then c + 32 else c)"

definition toLowerCase :: "jsstring \<Rightarrow> jsstring" where
  "toLowerCase s =
     concat (map (\<lambda>c. if c = 8490 then [107] else if c = 304 then [105, 775] else [lowerChar c]) s)"

text \<open>
  A regular expression with the flag \<open>i\<close> and an ASCII pattern: a character of the input
  matches a pattern character when both have the same ASCII lower-case form (a code unit
  outside ASCII never canonicalises to an ASCII one).
\<close>

definition foldCase :: "jsstring \<Rightarrow> jsstring" where
  "foldCase s = map lowerChar s"

text \<open>
  A global \<open>replace\<close> of every maximal run of characters of a class by one character, as
  in \<open>replace(/\s+/g, ' ')\<close>.
\<close>

function collapseRuns :: "(jschar \<Rightarrow> bool) \<Rightarrow> jschar \<Rightarrow> jsstring \<Rightarrow> jsstring" where
  "collapseRuns P r [] = []"
| "collapseRuns P r (c # cs) =
     (if P c then r # collapseRuns P r (dropWhile P cs) else c # collapseRuns P r cs)"
  by pat_completeness auto
termination
  by (relation "measure (\<lambda>(P, r, s). length s)") (auto simp: length_dropWhile_le less_Suc_eq_le)

text \<open>Decimal rendering of a non-negative integer, as a template literal does it.\<close>

definition digitChar :: "nat \<Rightarrow> jschar" where
  "digitChar d = 48 + int d"

fun showNat :: "nat \<Rightarrow> jsstring" where
  "showNat n = (if n < 10 then [digitChar n] else showNat (n div 10) @ [digitChar (n mod 10)])"

declare showNat.simps [simp del]

section \<open>Link discovery\<close>

text \<open>
  An anchor of the seed page, as \<open>discoverAllPages\<close> and \<open>calculateLinkLevel\<close> read it:
  its \<open>href\<close> attribute, its text, its class name, and the chain of its
  \<open>parentElement\<close>s, nearest first. Of an ancestor only the two selector tests of the
  level loop matter.
\<close>

record ancestor =
  matchesNavRoot :: bool  \<comment> \<open>\<open>parent.matches('nav, .sidebar, .menu')\<close>\<close>
  matchesItem :: bool  \<comment> \<open>\<open>parent.matches('li, .nav-item')\<close>\<close>

record anchor =
  href :: "jsstring option"  \<comment> \<open>\<open>getAttribute('href')\<close>, \<open>None\<close> for \<open>null\<close>\<close>
  textContent :: jsstring
  className :: jsstring
  ancestors :: "ancestor list"

record pageLink =
  url :: jsstring
  title :: jsstring
  level :: nat
  element :: anchor

definition navSelectors :: "jsstring list" where
  "navSelectors = [js ''nav a[href]'', js ''.sidebar a[href]'', js ''.menu a[href]'',
     js ''.navigation a[href]'', js ''.toc a[href]'', js ''.table-of-contents a[href]'',
     js ''.nav-list a[href]'']"

text \<open>The exclusion patterns of \<open>isValidDocumentLink\<close>, in the order of the source.\<close>

definition startsWithCI :: "jsstring \<Rightarrow> jsstring \<Rightarrow> bool" where
  "startsWithCI s p = startsWith (foldCase s) (foldCase p)"

definition endsWithCI :: "jsstring \<Rightarrow> jsstring \<Rightarrow> bool" where
  "endsWithCI s p = endsWith (foldCase s) (foldCase p)"

definition isExternalLink :: "jsstring \<Rightarrow> bool" where
  \<comment> \<open>\<open>/^https?:\/\/(?!.*duruofu\.github\.io)/i\<close>; the dot of \<open>.*\<close> stops at a line terminator\<close>
  "isExternalLink h =
     (let rest = (if startsWithCI h (js ''http://'') then Some (drop 7 h)
                  else if startsWithCI h (js ''https://'') then Some (drop 8 h)
                  else None)
      in case rest of
           None \<Rightarrow> False
         | Some r \<Rightarrow> \<not> includes_js (foldCase (takeWhile (\<lambda>c. \<not> isLineTerminator c) r))
                        (js ''duruofu.github.io''))"

definition isValidDocumentLink :: "jsstring option \<Rightarrow> bool" where
  "isValidDocumentLink ho =
     (case ho of
        None \<Rightarrow> False
      | Some h \<Rightarrow>
          if h = [] then False
          else \<not> (isExternalLink h
                 \<or> startsWithCI h (js ''javascript:'')
                 \<or> startsWithCI h (js ''mailto:'')
                 \<or> startsWithCI h (js ''tel:'')
                 \<or> list_ex (\<lambda>e. endsWithCI h (js ''.'' @ e))
                      [js ''pdf'', js ''jpg'', js ''jpeg'', js ''png'', js ''gif'', js ''zip'', js ''rar'']
                 \<or> endsWith h (js ''#'')))"

text \<open>
  \<open>resolveUrl\<close>: the URL constructor of the browser is a parameter, \<open>None\<close> when it
  throws; the \<open>catch\<close> then returns the \<open>href\<close> unchanged.
\<close>

definition resolveUrl :: "(jsstring \<Rightarrow> jsstring option) \<Rightarrow> jsstring \<Rightarrow> jsstring" where
  "resolveUrl newURL h = (case newURL h of Some u \<Rightarrow> u | None \<Rightarrow> h)"

text \<open>The \<open>while\<close> loop of \<open>calculateLinkLevel\<close>, walking the parent chain.\<close>

fun levelLoop :: "nat \<Rightarrow> ancestor list \<Rightarrow> nat" where
  "levelLoop lv [] = lv"
| "levelLoop lv (p # ps) =
     (if matchesNavRoot p then lv
      else levelLoop (if matchesItem p then lv + 1 else lv) ps)"

definition calculateLinkLevel :: "anchor \<Rightarrow> nat" where
  "calculateLinkLevel linkElement =
     (let lv0 = levelLoop 1 (ancestors linkElement);
          classList = toLowerCase (className linkElement);
          lv1 = (if includes_js classList (js ''level-2'') \<or> includes_js classList (js ''sub'')
                 then 2 else lv0);
          lv2 = (if includes_js classList (js ''level-3'') \<or> includes_js classList (js ''subsub'')
                 then 3 else lv1)
      in min lv2 6)"

text \<open>The body of the inner \<open>forEach\<close>: one anchor, appended unless its URL is there already.\<close>

definition visitLink ::
  "(jsstring \<Rightarrow> jsstring option) \<Rightarrow> pageLink list \<Rightarrow> anchor \<Rightarrow> pageLink list" where
  "visitLink newURL links link =
     (if isValidDocumentLink (href link) then
        (let fullUrl = resolveUrl newURL (the (href link));
             t = trim (textContent link);
             lv = calculateLinkLevel link
         in if \<not> list_ex (\<lambda>l. url l = fullUrl) links
            then links @ [\<lparr>url = fullUrl, title = t, level = lv, element = link\<rparr>]
            else links)
      else links)"

text \<open>
  The two nested \<open>forEach\<close> loops: for each selector in turn, for each anchor that
  \<open>querySelectorAll\<close> returns for it.
\<close>

definition collectLinks ::
  "(jsstring \<Rightarrow> anchor list) \<Rightarrow> (jsstring \<Rightarrow> jsstring option) \<Rightarrow> pageLink list" where
  "collectLinks querySelectorAll newURL =
     foldl (\<lambda>links selector. foldl (visitLink newURL) links (querySelectorAll selector))
       [] navSelectors"

text \<open>
  The comparator handed to \<open>links.sort\<close>, and \<open>Array.prototype.sort\<close> itself. ECMAScript
  (since 2019) requires the sort to be stable; with a consistent comparator its result
  is the one computed by a stable insertion sort: an element is placed before the first
  element of the sorted rest that it does not compare greater than.
\<close>

definition linkCompare :: "pageLink \<Rightarrow> pageLink \<Rightarrow> int" where
  "linkCompare a b = (if level a \<noteq> level b then int (level a) - int (level b) else 0)"

fun sortInsert :: "('a \<Rightarrow> 'a \<Rightarrow> int) \<Rightarrow> 'a \<Rightarrow> 'a list \<Rightarrow> 'a list" where
  "sortInsert cmp x [] = [x]"
| "sortInsert cmp x (y # ys) = (if cmp x y > 0 then y # sortInsert cmp x ys else x # y # ys)"

fun arraySort :: "('a \<Rightarrow> 'a \<Rightarrow> int) \<Rightarrow> 'a list \<Rightarrow> 'a list" where
  "arraySort cmp [] = []"
| "arraySort cmp (x # xs) = sortInsert cmp x (arraySort cmp xs)"

definition discoverAllPages ::
  "(jsstring \<Rightarrow> anchor list) \<Rightarrow> (jsstring \<Rightarrow> jsstring option) \<Rightarrow> pageLink list" where
  "discoverAllPages querySelectorAll newURL =
     arraySort linkCompare (collectLinks querySelectorAll newURL)"

section \<open>Title cleaning\<close>

text \<open>
  \<open>cleanTitle\<close> chains three non-global \<open>replace\<close> calls and a \<open>trim\<close>. Each regular
  expression is anchored, and its character classes (\<open>#\<close> and \<open>\s\<close>) are disjoint, so
  greedy matching never backtracks into a different match:
  \<^item> \<open>/^#+\s*/\<close> matches at the start exactly when the string begins with \<open>#\<close>, and then
    takes all leading \<open>#\<close> and the white space after them;
  \<^item> \<open>/\s*#+\s*$/\<close> and \<open>/\s*#\s*$/\<close> match a whole suffix; \<open>replace\<close> takes the
    leftmost position whose suffix matches.
\<close>

definition stripLeadingHashes :: "jsstring \<Rightarrow> jsstring" where
  "stripLeadingHashes s =
     (case s of
        [] \<Rightarrow> []
      | c # cs \<Rightarrow> if c = 35 then dropWhile isSpace (dropWhile (\<lambda>d. d = 35) s) else s)"

definition matchesHashesTail :: "jsstring \<Rightarrow> bool" where
  "matchesHashesTail s =
     (let s1 = dropWhile isSpace s
      in case s1 of
           [] \<Rightarrow> False
         | c # r \<Rightarrow> c = 35 \<and> list_all isSpace (dropWhile (\<lambda>d. d = 35) r))"

definition matchesOneHashTail :: "jsstring \<Rightarrow> bool" where
  "matchesOneHashTail s =
     (let s1 = dropWhile isSpace s
      in case s1 of
           [] \<Rightarrow> False
         | c # r \<Rightarrow> c = 35 \<and> list_all isSpace r)"

fun removeTailMatch :: "(jsstring \<Rightarrow> bool) \<Rightarrow> jsstring \<Rightarrow> jsstring" where
  "removeTailMatch m [] = []"
| "removeTailMatch m (c # cs) = (if m (c # cs) then [] else c # removeTailMatch m cs)"

definition unnamedPage :: jsstring where
  "unnamedPage = [26410, 21629, 21517, 39029, 38754]"

definition cleanTitle :: "jsstring \<Rightarrow> jsstring" where
  "cleanTitle t =
     (if t = [] then unnamedPage
      else trim (removeTailMatch matchesOneHashTail
                  (removeTailMatch matchesHashesTail (stripLeadingHashes t))))"

section \<open>HTML to Markdown\<close>

text \<open>
  The parsed content tree: text nodes, elements (upper-case tag name, attributes, whether
  the inline style hides the element, children) and every other node kind. The flag
  stands for \<open>node.style.display === 'none' || node.style.visibility === 'hidden'\<close>.
\<close>

datatype node =
    TextNode jsstring
  | Element jsstring "(jsstring \<times> jsstring) list" bool "node list"
  | OtherNode

datatype listKind = ListOL | ListUL

record listState =
  lsType :: "listKind option"
  lsStart :: "nat option"
  lsIndex :: "nat option"
  lsLevel :: "nat option"

definition emptyListState :: listState where
  "emptyListState = \<lparr>lsType = None, lsStart = None, lsIndex = None, lsLevel = None\<rparr>"

record ancestry =
  inPre :: bool
  inCode :: bool
  inTbody :: bool

definition noAncestry :: ancestry where
  "noAncestry = \<lparr>inPre = False, inCode = False, inTbody = False\<rparr>"

definition enter :: "ancestry \<Rightarrow> jsstring \<Rightarrow> ancestry" where
  "enter a tag = \<lparr>inPre = (inPre a \<or> tag = js ''PRE''), inCode = (inCode a \<or> tag = js ''CODE''),
                  inTbody = (inTbody a \<or> tag = js ''TBODY'')\<rparr>"

fun isElementTagged :: "jsstring \<Rightarrow> node \<Rightarrow> bool" where
  "isElementTagged t (Element tag attrs hid ch) = (tag = t)"
| "isElementTagged t n = False"

fun getAttribute :: "node \<Rightarrow> jsstring \<Rightarrow> jsstring option" where
  "getAttribute (Element tag attrs hid ch) name = map_of attrs name"
| "getAttribute n name = None"

fun textContentOf :: "node \<Rightarrow> jsstring" where
  "textContentOf (TextNode t) = t"
| "textContentOf (Element tag attrs hid ch) = concat (map textContentOf ch)"
| "textContentOf OtherNode = []"

fun selectAll :: "(ancestry \<Rightarrow> jsstring \<Rightarrow> bool) \<Rightarrow> ancestry \<Rightarrow> node \<Rightarrow> (ancestry \<times> node) list" where
  "selectAll P a (Element tag attrs hid ch) =
     concat (map (\<lambda>d. (case d of
                          Element t as h c \<Rightarrow> (if P (enter a tag) t then [(enter a tag, d)] else [])
                        | _ \<Rightarrow> [])
                      @ selectAll P (enter a tag) d) ch)"
| "selectAll P a n = []"

fun replaceNewlines :: "jsstring \<Rightarrow> jsstring" where
  "replaceNewlines [] = []"
| "replaceNewlines [c] = (if c = 13 \<or> c = 10 then [32] else [c])"
| "replaceNewlines (c # d # ds) =
     (if c = 13 \<and> d = 10 then 32 # replaceNewlines ds
      else if c = 13 \<or> c = 10 then 32 # replaceNewlines (d # ds)
      else c # replaceNewlines (d # ds))"

definition collapseSpaces :: "jsstring \<Rightarrow> jsstring" where
  "collapseSpaces s = collapseRuns isSpace 32 s"

fun splitOn :: "jschar \<Rightarrow> jsstring \<Rightarrow> jsstring list" where
  "splitOn sep [] = [[]]"
| "splitOn sep (c # cs) =
     (if c = sep then [] # splitOn sep cs
      else (case splitOn sep cs of l # ls \<Rightarrow> (c # l) # ls | [] \<Rightarrow> [[c]]))"

fun joinWith :: "jsstring \<Rightarrow> jsstring list \<Rightarrow> jsstring" where
  "joinWith sep [] = []"
| "joinWith sep [x] = x"
| "joinWith sep (x # y # ys) = x @ sep @ joinWith sep (y # ys)"

definition repeat_js :: "jsstring \<Rightarrow> nat \<Rightarrow> jsstring" where
  "repeat_js s n = concat (replicate n s)"

definition showIndex :: "nat option \<Rightarrow> jsstring" where
  "showIndex i = (case i of None \<Rightarrow> js ''undefined'' | Some n \<Rightarrow> showNat n)"

definition escapePipes :: "jsstring \<Rightarrow> jsstring" where
  "escapePipes s = concat (map (\<lambda>c. if c = 124 then [92, 124] else [c]) s)"

definition childListState :: "jsstring \<Rightarrow> listState \<Rightarrow> node \<Rightarrow> listState" where
  "childListState tag ls child =
     (if tag = js ''OL'' then
        (let start = (case lsStart ls of None \<Rightarrow> 1 | Some n \<Rightarrow> if n = 0 then 1 else n)
         in if isElementTagged (js ''LI'') child
            then ls\<lparr>lsType := Some ListOL, lsStart := Some (start + 1), lsIndex := Some start\<rparr>
            else ls\<lparr>lsType := Some ListOL, lsStart := Some start\<rparr>)
      else if tag = js ''UL'' then ls\<lparr>lsType := Some ListUL\<rparr>
      else if lsType ls \<noteq> None then
        ls\<lparr>lsLevel := Some ((case lsLevel ls of None \<Rightarrow> 0 | Some n \<Rightarrow> n) + 1)\<rparr>
      else ls)"

definition blockSeparator :: jsstring where
  "blockSeparator = [10, 10]"

definition headerRowCells :: "ancestry \<Rightarrow> node \<Rightarrow> (ancestry \<times> node) list option" where
  "headerRowCells a n =
     (case selectAll (\<lambda>anc t. t = js ''TR'') a n of
        [] \<Rightarrow> None
      | row # rest \<Rightarrow> Some (selectAll (\<lambda>anc t. t = js ''TH'' \<or> t = js ''TD'') (fst row) (snd row)))"

definition bodyRowCells :: "ancestry \<Rightarrow> node \<Rightarrow> (ancestry \<times> node) list list" where
  "bodyRowCells a n =
     map (\<lambda>row. selectAll (\<lambda>anc t. t = js ''TD'') (fst row) (snd row))
       (selectAll (\<lambda>anc t. t = js ''TR'' \<and> inTbody anc) a n)"

lemma selectAll_size: "p \<in> set (selectAll P a n) \<Longrightarrow> size (snd p) < size n"
proof (induction P a n arbitrary: p rule: selectAll.induct)
  case (1 P a tag attrs hid ch)
  from "1.prems" obtain d where d: "d \<in> set ch"
    and p: "p \<in> set ((case d of Element t as h c \<Rightarrow> (if P (enter a tag) t then [(enter a tag, d)] else []) | _ \<Rightarrow> []) @ selectAll P (enter a tag) d)"
    by auto
  have "size (snd p) \<le> size d"
  proof (cases "p \<in> set (selectAll P (enter a tag) d)")
    case True
    then have "size (snd p) < size d" using "1.IH"[OF d] by blast
    then show ?thesis by simp
  next
    case False
    with p show ?thesis by (auto split: node.splits if_splits)
  qed
  moreover have "size d < size (Element tag attrs hid ch)"
    using d by (simp add: size_list_estimation' less_Suc_eq_le)
  ultimately show ?case by simp
qed simp_all

lemma headerRowCells_size:
  "headerRowCells a n = Some cells \<Longrightarrow> p \<in> set cells \<Longrightarrow> size (snd p) < size n"
  unfolding headerRowCells_def
  by (auto split: list.splits dest!: selectAll_size)
     (metis list.set_intros(1) selectAll_size less_trans snd_conv)

lemma bodyRowCells_size:
  "cells \<in> set (bodyRowCells a n) \<Longrightarrow> p \<in> set cells \<Longrightarrow> size (snd p) < size n"
  unfolding bodyRowCells_def
  by (auto dest!: selectAll_size)


definition renderLI :: "listState \<Rightarrow> jsstring \<Rightarrow> jsstring" where
  "renderLI ls trimContent =
     (let indent = repeat_js (js ''  '') (case lsLevel ls of None \<Rightarrow> 0 | Some n \<Rightarrow> n)
      in if lsType ls = Some ListOL
         then indent @ showIndex (lsIndex ls) @ js ''. '' @ trimContent @ [10]
         else indent @ js ''* '' @ trimContent @ [10])"

definition renderTable :: "jsstring list option \<Rightarrow> jsstring list list \<Rightarrow> jsstring" where
  "renderTable headers rows =
     (case headers of
        None \<Rightarrow> []
      | Some hs \<Rightarrow> js ''| '' @ joinWith (js '' | '') hs @ js '' |'' @ [10]
                  @ js ''| '' @ joinWith (js '' | '') (map (\<lambda>h. js ''---'') hs) @ js '' |'' @ [10])
     @ concat (map (\<lambda>cells. js ''| '' @ joinWith (js '' | '') cells @ js '' |'' @ [10]) rows)
     @ [10]"

definition renderElement ::
  "ancestry \<Rightarrow> jsstring \<Rightarrow> (jsstring \<times> jsstring) list \<Rightarrow> node list \<Rightarrow> listState \<Rightarrow>
   jsstring \<Rightarrow> jsstring \<Rightarrow> jsstring" where
  "renderElement a tag attrs ch ls childrenContent tableMd =
     (let trimContent = trim childrenContent in
      if tag = js ''H1'' then js ''# '' @ trimContent @ blockSeparator
      else if tag = js ''H2'' then js ''## '' @ trimContent @ blockSeparator
      else if tag = js ''H3'' then js ''### '' @ trimContent @ blockSeparator
      else if tag = js ''H4'' then js ''#### '' @ trimContent @ blockSeparator
      else if tag = js ''H5'' then js ''##### '' @ trimContent @ blockSeparator
      else if tag = js ''H6'' then js ''###### '' @ trimContent @ blockSeparator
      else if tag = js ''P'' then trimContent @ blockSeparator
      else if tag = js ''BLOCKQUOTE'' then
        joinWith [10] (map (\<lambda>line. js ''> '' @ line) (splitOn 10 trimContent)) @ blockSeparator
      else if tag = js ''PRE'' then
        js ''```'' @ [10] @ trim (concat (map textContentOf ch)) @ [10] @ js ''```'' @ blockSeparator
      else if tag = js ''CODE'' then
        (if inPre a then trimContent else js ''`'' @ trimContent @ js ''`'')
      else if tag = js ''A'' then
        (let h = (case map_of attrs (js ''href'') of None \<Rightarrow> [] | Some v \<Rightarrow> v)
         in if h \<noteq> [] then js ''['' @ childrenContent @ js '']('' @ h @ js '')'' else childrenContent)
      else if tag = js ''IMG'' then
        js ''!['' @ (case map_of attrs (js ''alt'') of None \<Rightarrow> [] | Some v \<Rightarrow> v) @ js '']('' @
          (case map_of attrs (js ''src'') of None \<Rightarrow> [] | Some v \<Rightarrow> v) @ js '')'' @ [10]
      else if tag = js ''STRONG'' \<or> tag = js ''B'' then js ''**'' @ childrenContent @ js ''**''
      else if tag = js ''EM'' \<or> tag = js ''I'' then js ''*'' @ childrenContent @ js ''*''
      else if tag = js ''DEL'' \<or> tag = js ''S'' then js ''~~'' @ childrenContent @ js ''~~''
      else if tag = js ''HR'' then js ''---'' @ blockSeparator
      else if tag = js ''BR'' then js ''  '' @ [10]
      else if tag = js ''UL'' then trim childrenContent @ blockSeparator
      else if tag = js ''OL'' then trim childrenContent @ blockSeparator
      else if tag = js ''LI'' then renderLI ls trimContent
      else if tag = js ''TABLE'' then tableMd
      else if tag = js ''SCRIPT'' \<or> tag = js ''STYLE'' then []
      else if tag \<in> set [js ''BODY'', js ''DIV'', js ''SPAN'', js ''SECTION'', js ''ARTICLE'',
                           js ''MAIN'', js ''HEADER'', js ''FOOTER'', js ''NAV''] then childrenContent
      else if tag \<in> set [js ''THEAD'', js ''TBODY'', js ''TR'', js ''TH'', js ''TD'']
        then childrenContent @ js '' ''
      else childrenContent)"

function convertNodeToMarkdown :: "ancestry \<Rightarrow> node \<Rightarrow> listState \<Rightarrow> jsstring" where
  "convertNodeToMarkdown a (TextNode t) ls =
     (if inPre a \<or> inCode a then t else collapseSpaces (replaceNewlines t))"
| "convertNodeToMarkdown a OtherNode ls = []"
| "convertNodeToMarkdown a (Element tag attrs hid ch) ls =
     (if hid then []
      else renderElement a tag attrs ch ls
             (concat (map (\<lambda>child. convertNodeToMarkdown (enter a tag) child
                                       (childListState tag ls child)) ch))
             (if tag = js ''TABLE'' then
                renderTable
                  (map_option (map (\<lambda>cell. trim (convertNodeToMarkdown (fst cell) (snd cell)
                                                      emptyListState)))
                     (headerRowCells a (Element tag attrs hid ch)))
                  (map (map (\<lambda>cell. escapePipes (trim (convertNodeToMarkdown (fst cell) (snd cell)
                                                                  emptyListState))))
                     (bodyRowCells a (Element tag attrs hid ch)))
              else []))"
  by pat_completeness auto
termination
  apply (relation "measure (\<lambda>(a, n, ls). size n)")
  apply simp
  apply (simp add: size_list_estimation' less_Suc_eq_le)
  apply (auto dest: headerRowCells_size bodyRowCells_size simp: set_option_def)
  done

definition htmlToMarkdown :: "(jsstring \<Rightarrow> node) \<Rightarrow> jsstring \<Rightarrow> jsstring" where
  "htmlToMarkdown parseBody htmlString =
     (if htmlString = [] then [] else convertNodeToMarkdown noAncestry (parseBody htmlString) emptyListState)"

section \<open>Page fetching\<close>

text \<open>
  The settled state of a promise. A rejection carries the \<open>message\<close> of its error, the
  only part of an error that the program reads.
\<close>

datatype 'a promise = Fulfilled 'a | Rejected jsstring

record pageContent =
  html :: jsstring
  contentTitle :: jsstring  \<comment> \<open>the field \<open>title\<close> of the content object\<close>
  styles :: jsstring
  textLength :: nat

text \<open>
  What the host answers. \<open>fetchText\<close> is \<open>fetch(url, ...)\<close>: a rejection, or a response with
  \<open>ok\<close>, \<open>status\<close>, \<open>statusText\<close> and the promise of \<open>response.text()\<close>.
  \<open>sendFetchPage\<close> is the callback argument of \<open>chrome.runtime.sendMessage\<close> for the action
  \<open>fetchPage\<close>: \<open>chrome.runtime.lastError\<close> set, no response object, or a response with its
  fields \<open>success\<close>, \<open>html\<close> and \<open>error\<close>. Every promise of the host settles.
\<close>

datatype httpResponse = HttpResponse bool nat jsstring "jsstring promise"

datatype backgroundReply =
    LastError jsstring
  | NoResponse
  | Reply bool jsstring "jsstring option"

type_synonym blob = "nat list"

record imageResponse =
  contentType :: jsstring  \<comment> \<open>\<open>response.headers.get('Content-Type') || ''\<close>\<close>
  imageBlob :: blob

record host =
  locationHref :: jsstring  \<comment> \<open>\<open>window.location.href\<close>\<close>
  querySelectorAll :: "jsstring \<Rightarrow> anchor list"  \<comment> \<open>on the seed document\<close>
  newURL :: "jsstring \<Rightarrow> jsstring option"
    \<comment> \<open>\<open>new URL(x, window.location.href).href\<close>, \<open>None\<close> when the constructor throws\<close>
  pathnameOf :: "jsstring \<Rightarrow> jsstring option"
    \<comment> \<open>\<open>new URL(x, window.location.href).pathname\<close>\<close>
  fetchText :: "jsstring \<Rightarrow> httpResponse promise"
  sendFetchPage :: "jsstring \<Rightarrow> backgroundReply"
  parseHTMLContent :: "jsstring \<Rightarrow> jsstring \<Rightarrow> pageContent"
    \<comment> \<open>content extraction; its whole body is a \<open>try\<close> whose \<open>catch\<close> returns a content object\<close>
  extractCurrentPageContent :: "jsstring + pageContent"
    \<comment> \<open>extraction from the live seed document, \<open>Inl\<close> when it throws\<close>
  parseBody :: "jsstring \<Rightarrow> node"
    \<comment> \<open>\<open>new DOMParser().parseFromString(x, 'text/html').body\<close>\<close>
  fetchImage :: "jsstring \<Rightarrow> imageResponse option"
    \<comment> \<open>\<open>fetch\<close> and \<open>blob()\<close> of an image; \<open>None\<close> for a rejection or a status that is not ok\<close>
  finishRank :: "nat \<Rightarrow> nat"
    \<comment> \<open>when the \<open>n\<close>-th image download of the run completes, relative to the others\<close>
  zipError :: "jsstring option"
    \<comment> \<open>the message of an error thrown while the archive is built, if any\<close>
  currentTime :: jsstring  \<comment> \<open>\<open>new Date().toLocaleString('zh-CN')\<close>\<close>

text \<open>
  Two shapes of \<open>try\<close> in an \<open>async\<close> function. In \<open>try { return e } catch (error) { ... }\<close>
  only the evaluation of \<open>e\<close> is inside the \<open>try\<close>: when it yields a promise, that promise
  is adopted by the function after the block has been left, and its rejection does not
  reach the handler. In \<open>try { return await e } catch (error) { ... }\<close> the rejection is
  thrown inside the block and the handler runs.
\<close>

definition tryReturn :: "(jsstring + 'a promise) \<Rightarrow> (jsstring \<Rightarrow> 'a promise) \<Rightarrow> 'a promise" where
  "tryReturn e handler = (case e of Inl message \<Rightarrow> handler message | Inr p \<Rightarrow> p)"

definition tryReturnAwait :: "'a promise \<Rightarrow> (jsstring \<Rightarrow> 'a promise) \<Rightarrow> 'a promise" where
  "tryReturnAwait p handler = (case p of Fulfilled v \<Rightarrow> Fulfilled v | Rejected message \<Rightarrow> handler message)"

definition fetchErrorHtml :: "jsstring \<Rightarrow> jsstring \<Rightarrow> jsstring" where
  "fetchErrorHtml u message =
     js ''<div class='' @ [34] @ js ''fetch-error'' @ [34] @ js ''>'' @ [10] @
       js ''          <h3>'' @ [39029, 38754, 33719, 21462, 22833, 36133] @ js ''</h3>'' @
       [10] @ js ''          <p>URL: '' @ u @ js ''</p>'' @ [10] @ js ''          <p>'' @
       [38169, 35823] @ js '': '' @ message @ js ''</p>'' @ [10] @ js ''          <p>'' @
       [21487, 33021, 21407, 22240] @ js '': '' @ [32593, 31449, 31105, 27490, 36328, 22495,
       35775, 38382, 25110, 32593, 32476, 38382, 39064] @ js ''</p>'' @ [10] @
       js ''        </div>''"

definition fetchErrorTitle :: "jsstring" where
  "fetchErrorTitle =
     [39029, 38754, 33719, 21462, 22833, 36133]"


definition fetchErrorPlaceholder :: "jsstring \<Rightarrow> jsstring \<Rightarrow> pageContent" where
  "fetchErrorPlaceholder u message =
     \<lparr>html = fetchErrorHtml u message, contentTitle = fetchErrorTitle, styles = [], textLength = 0\<rparr>"

text \<open>
  The promise that \<open>fetchPageViaBackground\<close> builds with \<open>new Promise\<close>. The constructor
  itself never throws: an exception inside the executor rejects the promise.
\<close>

definition backgroundPromise :: "host \<Rightarrow> jsstring \<Rightarrow> pageContent promise" where
  "backgroundPromise h u =
     (case sendFetchPage h u of
        LastError message \<Rightarrow> Rejected message
      | NoResponse \<Rightarrow> Rejected (js ''Background fetch failed'')
      | Reply success htmlText err \<Rightarrow>
          if success then Fulfilled (parseHTMLContent h htmlText u)
          else Rejected (case err of
                           None \<Rightarrow> js ''Background fetch failed''
                         | Some e \<Rightarrow> if e = [] then js ''Background fetch failed'' else e))"

definition fetchPageViaBackground :: "host \<Rightarrow> jsstring \<Rightarrow> pageContent promise" where
  "fetchPageViaBackground h u =
     tryReturn (Inr (backgroundPromise h u))
       (\<lambda>message. Fulfilled (fetchErrorPlaceholder u message))"

definition fetchPageViaFetch :: "host \<Rightarrow> jsstring \<Rightarrow> pageContent promise" where
  "fetchPageViaFetch h u =
     (let attempt =
        (case fetchText h u of
           Rejected message \<Rightarrow> Rejected message
         | Fulfilled (HttpResponse ok status statusText body) \<Rightarrow>
             if \<not> ok then Rejected (js ''HTTP '' @ showNat status @ js '': '' @ statusText)
             else (case body of
                     Rejected message \<Rightarrow> Rejected message
                   | Fulfilled htmlText \<Rightarrow> Fulfilled (parseHTMLContent h htmlText u)))
      in case attempt of
           Fulfilled c \<Rightarrow> Fulfilled c
         | Rejected message \<Rightarrow> fetchPageViaBackground h u)"

definition fetchPageContent :: "host \<Rightarrow> jsstring \<Rightarrow> pageContent promise" where
  "fetchPageContent h u =
     (if u = locationHref h then
        (case extractCurrentPageContent h of
           Inl message \<Rightarrow> Rejected message
         | Inr c \<Rightarrow> Fulfilled c)
      else tryReturnAwait (fetchPageViaFetch h u) (\<lambda>message. Rejected message))"

text \<open>
  \<open>batchFetchPages\<close>. An entry of its result is the link spread into a new object with the
  fields \<open>content\<close> and \<open>index\<close>. The loop is instrumented with the list of URLs handed
  to \<open>fetchPageContent\<close>.
\<close>

record fetchedPage = pageLink +
  content :: pageContent
  index :: nat

record fetchLoop =
  contents :: "fetchedPage list"
  requested :: "jsstring list"

definition emptyPageHtml :: "jsstring" where
  "emptyPageHtml =
     js ''<p>'' @ [27492, 39029, 38754, 20869, 23481, 26080, 27861, 33719, 21462] @
       js ''</p>''"

definition fetchFailedHtml :: "jsstring \<Rightarrow> jsstring" where
  "fetchFailedHtml message =
     js ''<p>'' @ [39029, 38754, 25235, 21462, 22833, 36133] @ js '': '' @ message @
       js ''</p>''"


definition fetchEntry :: "host \<Rightarrow> nat \<Rightarrow> pageLink \<Rightarrow> fetchedPage" where
  "fetchEntry h i link =
     (case fetchPageContent h (url link) of
        Fulfilled c \<Rightarrow>
          if textLength c > 0 then pageLink.extend link \<lparr>content = c, index = i\<rparr>
          else pageLink.extend link
                 \<lparr>content = \<lparr>html = emptyPageHtml, contentTitle = title link, styles = [],
                               textLength = 0\<rparr>,
                  index = i\<rparr>
      | Rejected message \<Rightarrow>
          pageLink.extend link
            \<lparr>content = \<lparr>html = fetchFailedHtml message, contentTitle = title link, styles = [],
                          textLength = 0\<rparr>,
             index = i\<rparr>)"

fun batchLoop :: "host \<Rightarrow> nat \<Rightarrow> fetchLoop \<Rightarrow> pageLink list \<Rightarrow> fetchLoop" where
  "batchLoop h i st [] = st"
| "batchLoop h i st (link # rest) =
     batchLoop h (i + 1)
       \<lparr>contents = contents st @ [fetchEntry h i link],
        requested = requested st @ [url link]\<rparr>
       rest"

definition batchFetchRun :: "host \<Rightarrow> pageLink list \<Rightarrow> fetchLoop" where
  "batchFetchRun h pageLinks = batchLoop h 0 \<lparr>contents = [], requested = []\<rparr> pageLinks"

definition batchFetchPages :: "host \<Rightarrow> pageLink list \<Rightarrow> fetchedPage list promise" where
  "batchFetchPages h pageLinks = Fulfilled (contents (batchFetchRun h pageLinks))"


section \<open>Image pipeline\<close>

text \<open>
  The per-run fields of the generator: \<open>imageMap\<close> (a \<open>Map\<close>, kept as the list of its
  entries in insertion order), \<open>imageCounter\<close> and \<open>failedImages\<close>; and, as instrumentation,
  the URLs handed to \<open>downloadImageAsBlob\<close> and the file names returned by
  \<open>generateImageFileName\<close> so far.
\<close>

record imageRef =
  refUrl :: jsstring  \<comment> \<open>\<open>url\<close>\<close>
  refAlt :: jsstring  \<comment> \<open>\<open>altText\<close>\<close>
  refTitle :: jsstring  \<comment> \<open>\<open>title\<close>\<close>
  refContext :: jsstring  \<comment> \<open>\<open>context\<close>\<close>
  refPage :: jsstring  \<comment> \<open>\<open>pageTitle\<close>\<close>

record imageInfo =
  localPath :: jsstring
  imageData :: blob  \<comment> \<open>\<open>blob\<close>\<close>
  fileName :: jsstring
  originalUrl :: jsstring

record failedImage =
  failUrl :: jsstring  \<comment> \<open>\<open>url\<close>\<close>
  failError :: jsstring  \<comment> \<open>\<open>error\<close>\<close>
  failPage :: jsstring  \<comment> \<open>\<open>pageTitle\<close>\<close>
  failAlt :: jsstring  \<comment> \<open>\<open>altText\<close>\<close>
  failContext :: jsstring  \<comment> \<open>\<open>context\<close>, empty while the field is absent\<close>

record generator =
  imageMap :: "(jsstring \<times> imageInfo) list"
  imageCounter :: nat
  failedImages :: "failedImage list"
  downloadLog :: "jsstring list"
  nameLog :: "jsstring list"

definition mapHas :: "(jsstring \<times> 'v) list \<Rightarrow> jsstring \<Rightarrow> bool" where
  "mapHas m k = (map_of m k \<noteq> None)"

fun mapSet :: "(jsstring \<times> 'v) list \<Rightarrow> jsstring \<Rightarrow> 'v \<Rightarrow> (jsstring \<times> 'v) list" where
  "mapSet [] k v = [(k, v)]"
| "mapSet (e # es) k v = (if fst e = k then (k, v) # es else e # mapSet es k v)"

subsection \<open>File names\<close>

text \<open>
  The string hash of \<open>generateImageFileName\<close>. \<open>hash\<close> is a 32-bit integer throughout:
  \<open>hash << 5\<close> wraps, the subtraction and the addition are exact in double precision, and
  \<open>hash & hash\<close> wraps their result again; so each step is arithmetic modulo \<open>2 ^ 32\<close>.
\<close>

fun hashLoop :: "32 word \<Rightarrow> jsstring \<Rightarrow> 32 word" where
  "hashLoop hash [] = hash"
| "hashLoop hash (char # rest) = hashLoop ((push_bit 5 hash - hash) + of_int char) rest"

definition hexDigit :: "nat \<Rightarrow> jschar" where
  "hexDigit d = (if d < 10 then 48 + int d else 87 + int d)"

function toHex :: "int \<Rightarrow> jsstring" where
  "toHex n = (if n < 16 then [hexDigit (nat n)] else toHex (n div 16) @ [hexDigit (nat (n mod 16))])"
  by pat_completeness auto
termination
  by (relation "measure nat") auto

declare toHex.simps [simp del]

definition padStart :: "nat \<Rightarrow> jschar \<Rightarrow> jsstring \<Rightarrow> jsstring" where
  "padStart n c s = replicate (n - length s) c @ s"

definition hashHex :: "jsstring \<Rightarrow> jsstring" where
  "hashHex imageUrl = padStart 8 48 (toHex \<bar>sint (hashLoop 0 imageUrl)\<bar>)"

definition generateImageFileName :: "generator \<Rightarrow> jsstring \<Rightarrow> jsstring \<Rightarrow> jsstring \<times> generator" where
  "generateImageFileName g imageUrl extension =
     (let g' = g\<lparr>imageCounter := imageCounter g + 1\<rparr>;
          name = js ''img_'' @ showNat (imageCounter g') @ js ''_'' @ hashHex imageUrl @ js ''.''
                 @ extension
      in (name, g'\<lparr>nameLog := nameLog g' @ [name]\<rparr>))"

subsection \<open>Download\<close>

definition extensionOfType :: "jsstring \<Rightarrow> jsstring" where
  "extensionOfType ct =
     (if includes_js ct (js ''jpeg'') \<or> includes_js ct (js ''jpg'') then js ''jpg''
      else if includes_js ct (js ''png'') then js ''png''
      else if includes_js ct (js ''gif'') then js ''gif''
      else if includes_js ct (js ''webp'') then js ''webp''
      else if includes_js ct (js ''svg'') then js ''svg''
      else js ''png'')"

definition urlExtensions :: "jsstring list" where
  "urlExtensions = [js ''jpg'', js ''jpeg'', js ''png'', js ''gif'', js ''webp'', js ''svg'']"

text \<open>
  \<open>downloadImageAsBlob\<close>: \<open>None\<close> is the \<open>null\<close> that its \<open>catch\<close> returns, also when the URL
  constructor throws while the extension is read from the path.
\<close>

definition downloadImageAsBlob :: "host \<Rightarrow> jsstring \<Rightarrow> (blob \<times> jsstring) option" where
  "downloadImageAsBlob h imageUrl =
     (case fetchImage h imageUrl of
        None \<Rightarrow> None
      | Some r \<Rightarrow>
          if contentType r = [] \<and> imageUrl \<noteq> [] then
            (case pathnameOf h imageUrl of
               None \<Rightarrow> None
             | Some urlPath \<Rightarrow>
                 (case find (\<lambda>e. endsWithCI urlPath (js ''.'' @ e)) urlExtensions of
                    Some e \<Rightarrow> Some (imageBlob r, e)
                  | None \<Rightarrow> Some (imageBlob r, extensionOfType (contentType r))))
          else Some (imageBlob r, extensionOfType (contentType r)))"

text \<open>
  One batch of \<open>batchDownloadImages\<close>. The tasks of a batch start in order: each tests
  \<open>imageMap.has(url)\<close> and, if the URL is not there, issues its download. The downloads
  then complete in the order of their ranks, and on completion a task names the file and
  stores the entry. \<open>Promise.allSettled\<close> returns the outcomes in task order.
\<close>

datatype taskOutcome = Downloaded imageInfo | Failed jsstring

record batchTask =
  taskIndex :: nat
  taskUrl :: jsstring
  requestNo :: nat

fun startTasks :: "generator \<Rightarrow> nat \<Rightarrow> jsstring list \<Rightarrow> batchTask list \<times> generator" where
  "startTasks g i [] = ([], g)"
| "startTasks g i (u # us) =
     (if mapHas (imageMap g) u then startTasks g (i + 1) us
      else (let t = \<lparr>taskIndex = i, taskUrl = u, requestNo = length (downloadLog g)\<rparr>;
                r = startTasks (g\<lparr>downloadLog := downloadLog g @ [u]\<rparr>) (i + 1) us
            in (t # fst r, snd r)))"

definition downloadFailedMessage :: "jsstring" where
  "downloadFailedMessage =
     [19979, 36733, 22833, 36133]"


definition completeTask ::
  "host \<Rightarrow> (nat \<times> taskOutcome) list \<times> generator \<Rightarrow> batchTask \<Rightarrow>
   (nat \<times> taskOutcome) list \<times> generator" where
  "completeTask h acc t =
     (case downloadImageAsBlob h (taskUrl t) of
        Some (b, extension) \<Rightarrow>
          (let named = generateImageFileName (snd acc) (taskUrl t) extension;
               info = \<lparr>localPath = js ''./images/'' @ fst named, imageData = b,
                       fileName = fst named, originalUrl = taskUrl t\<rparr>;
               g' = (snd named)\<lparr>imageMap := mapSet (imageMap (snd named)) (taskUrl t) info\<rparr>
           in (fst acc @ [(taskIndex t, Downloaded info)], g'))
      | None \<Rightarrow> (fst acc @ [(taskIndex t, Failed downloadFailedMessage)], snd acc))"

definition collectOutcome ::
  "(jsstring \<times> imageInfo) list \<Rightarrow> (nat \<times> taskOutcome) list \<Rightarrow> jsstring \<Rightarrow>
   imageInfo list \<times> generator \<Rightarrow> nat \<times> jsstring \<Rightarrow> imageInfo list \<times> generator" where
  "collectOutcome cached outcomes pageTitle acc iu =
     (case map_of outcomes (fst iu) of
        Some (Downloaded info) \<Rightarrow> (fst acc @ [info], snd acc)
      | Some (Failed message) \<Rightarrow>
          (fst acc,
           (snd acc)\<lparr>failedImages := failedImages (snd acc) @
              [\<lparr>failUrl = snd iu, failError = message, failPage = pageTitle, failAlt = [],
                failContext = []\<rparr>]\<rparr>)
      | None \<Rightarrow>
          (case map_of cached (snd iu) of
             Some info \<Rightarrow> (fst acc @ [info], snd acc)
           | None \<Rightarrow> acc))"

definition downloadBatch ::
  "host \<Rightarrow> jsstring \<Rightarrow> imageInfo list \<times> generator \<Rightarrow> jsstring list \<Rightarrow> imageInfo list \<times> generator" where
  "downloadBatch h pageTitle acc batch =
     (let cached = imageMap (snd acc);
          started = startTasks (snd acc) 0 batch;
          completed = foldl (completeTask h) ([], snd started)
                        (sort_key (\<lambda>t. finishRank h (requestNo t)) (fst started))
      in foldl (collectOutcome cached (fst completed) pageTitle) (fst acc, snd completed)
           (zip [0..<length batch] batch))"

function batches :: "nat \<Rightarrow> 'a list \<Rightarrow> 'a list list" where
  "batches n xs = (if n = 0 \<or> xs = [] then [] else take n xs # batches n (drop n xs))"
  by pat_completeness auto
termination
  by (relation "measure (\<lambda>(n, xs). length xs)") auto

declare batches.simps [simp del]

definition batchDownloadImages ::
  "host \<Rightarrow> generator \<Rightarrow> jsstring list \<Rightarrow> jsstring \<Rightarrow> imageInfo list \<times> generator" where
  "batchDownloadImages h g imageUrls pageTitle =
     foldl (downloadBatch h pageTitle) ([], g) (batches 5 imageUrls)"


subsection \<open>Collection and deduplication\<close>

fun imgElements :: "node \<Rightarrow> (node \<times> node) list" where
  "imgElements (Element tag attrs hid ch) =
     concat (map (\<lambda>d. (if isElementTagged (js ''IMG'') d then [(Element tag attrs hid ch, d)] else [])
                      @ imgElements d) ch)"
| "imgElements n = []"

definition collectImage :: "host \<Rightarrow> jsstring \<Rightarrow> node \<times> node \<Rightarrow> imageRef list" where
  "collectImage h pageTitle pi =
     (case getAttribute (snd pi) (js ''src'') of
        None \<Rightarrow> []
      | Some originalSrc \<Rightarrow>
          if originalSrc = [] then []
          else (case newURL h originalSrc of
                  None \<Rightarrow> []
                | Some absoluteUrl \<Rightarrow>
                    if startsWith absoluteUrl (js ''data:'') then []
                    else [\<lparr>refUrl = absoluteUrl,
                           refAlt = (case getAttribute (snd pi) (js ''alt'') of None \<Rightarrow> [] | Some v \<Rightarrow> v),
                           refTitle = (case getAttribute (snd pi) (js ''title'') of None \<Rightarrow> [] | Some v \<Rightarrow> v),
                           refContext = trim (take 50 (textContentOf (fst pi))),
                           refPage = pageTitle\<rparr>]))"

definition collectImagesFromHTML :: "host \<Rightarrow> jsstring \<Rightarrow> jsstring \<Rightarrow> imageRef list" where
  "collectImagesFromHTML h htmlContent pageTitle =
     (if htmlContent = [] then []
      else concat (map (collectImage h pageTitle) (imgElements (parseBody h htmlContent))))"

definition uniqueByUrl :: "imageRef list \<Rightarrow> imageRef list" where
  "uniqueByUrl infos =
     foldl (\<lambda>m imgInfo. if list_ex (\<lambda>e. refUrl e = refUrl imgInfo) m then m else m @ [imgInfo]) [] infos"

definition updateFailedContext :: "imageRef list \<Rightarrow> failedImage \<Rightarrow> failedImage" where
  "updateFailedContext uniqueImages failedImg =
     (case find (\<lambda>img. refUrl img = failUrl failedImg) uniqueImages of
        Some imgInfo \<Rightarrow> failedImg\<lparr>failAlt := refAlt imgInfo, failContext := refContext imgInfo,
                                   failPage := refPage imgInfo\<rparr>
      | None \<Rightarrow> failedImg)"

subsection \<open>Path rewriting\<close>

text \<open>
  \<open>replaceImagePaths\<close> builds, for a URL, the regular expression
  \<open>!\[([^\]]*)\]\(URL\)\<close> with the URL escaped, so that it matches literally, and replaces
  globally. \<open>matchImageRef\<close> is a match anchored at the start of the text: it yields the
  capture and the text after the match. The class \<open>[^\]]\<close> excludes the character that
  must follow the capture, so the greedy capture is the only one possible.
\<close>

definition matchImageRef :: "jsstring \<Rightarrow> jsstring \<Rightarrow> (jsstring \<times> jsstring) option" where
  "matchImageRef u s =
     (if startsWith s (js ''!['') then
        (let r = drop 2 s;
             alt = takeWhile (\<lambda>c. c \<noteq> 93) r;
             r' = dropWhile (\<lambda>c. c \<noteq> 93) r
         in if startsWith r' (js '']('' @ u @ js '')'')
            then Some (alt, drop (length u + 3) r') else None)
      else None)"

text \<open>
  The replacement text of \<open>String.prototype.replace\<close> for a pattern with one capture
  group and no named groups: \<open>$$\<close>, \<open>$&\<close>, \<open>$`\<close>, \<open>$'\<close>, \<open>$1\<close> and \<open>$01\<close> are substituted,
  every other \<open>$\<close> is literal.
\<close>

fun getSubstitution :: "jsstring \<Rightarrow> jsstring \<Rightarrow> jsstring \<Rightarrow> jsstring \<Rightarrow> jsstring \<Rightarrow> jsstring" where
  "getSubstitution [] matched capture preceding following = []"
| "getSubstitution [x] matched capture preceding following = [x]"
| "getSubstitution (x # y # t) matched capture preceding following =
     (if x \<noteq> 36 then x # getSubstitution (y # t) matched capture preceding following
      else if y = 36 then 36 # getSubstitution t matched capture preceding following
      else if y = 38 then matched @ getSubstitution t matched capture preceding following
      else if y = 96 then preceding @ getSubstitution t matched capture preceding following
      else if y = 39 then following @ getSubstitution t matched capture preceding following
      else if y = 49 then capture @ getSubstitution t matched capture preceding following
      else if y = 48 then
        (case t of
           [] \<Rightarrow> [36, 48]
         | z # t' \<Rightarrow> if z = 49 then capture @ getSubstitution t' matched capture preceding following
                     else 36 # 48 # getSubstitution t matched capture preceding following)
      else 36 # getSubstitution (y # t) matched capture preceding following)"

lemma matchImageRef_shorter:
  assumes "matchImageRef u s = Some (alt, rest)"
  shows "length rest < length s"
proof -
  from assms have st: "startsWith s (js ''!['')"
    and r: "rest = drop (length u + 3) (dropWhile (\<lambda>c. c \<noteq> 93) (drop 2 s))"
    by (auto simp: matchImageRef_def Let_def split: if_splits)
  from st have "take (Suc (Suc 0)) s = [33, 91]" by (simp add: startsWith_def js_def)
  then have "length (take (Suc (Suc 0)) s) = 2" by simp
  then have two: "2 \<le> length s" by simp
  have "length (dropWhile (\<lambda>c. c \<noteq> 93) (drop 2 s)) \<le> length (drop 2 s)"
    by (rule length_dropWhile_le)
  then have "length rest \<le> length s - 2" unfolding r by simp
  with two show ?thesis by arith
qed

function replaceImageRefs :: "jsstring \<Rightarrow> jsstring \<Rightarrow> jsstring \<Rightarrow> jsstring \<Rightarrow> jsstring" where
  "replaceImageRefs u template preceding [] = []"
| "replaceImageRefs u template preceding (c # cs) =
     (case matchImageRef u (c # cs) of
        Some m \<Rightarrow>
          getSubstitution template (js ''!['' @ fst m @ js '']('' @ u @ js '')'') (fst m) preceding (snd m)
          @ replaceImageRefs u template (preceding @ js ''!['' @ fst m @ js '']('' @ u @ js '')'') (snd m)
      | None \<Rightarrow> c # replaceImageRefs u template (preceding @ [c]) cs)"
  by pat_completeness auto
termination
  by (relation "measure (\<lambda>(u, t, b, s). length s)")
     (auto dest: matchImageRef_shorter simp del: matchImageRef_def)

definition failedReplacement :: "jsstring \<Rightarrow> jsstring \<Rightarrow> jsstring" where
  "failedReplacement err u =
     [10, 10] @ js ''> '' @ [9888, 65039] @ js '' **'' @ [22270, 29255, 21152, 36733, 22833,
       36133] @ js ''** - '' @ [35831, 25163, 21160, 22788, 29702, 10] @ js ''> '' @ [10] @
       js ''> '' @ [21407, 22240] @ js '': '' @ err @ [10] @ js ''> '' @ [10] @ js ''> '' @
       [21407, 22987, 38142, 25509] @ js '': ['' @ [28857, 20987, 26597, 30475] @
       js ''](<'' @ u @ js ''>)'' @ [10, 10] @ js ''![$1]('' @ u @ js '' '' @ [34, 10060] @
       js '' '' @ [19979, 36733, 22833, 36133, 34] @ js '')''"


definition replaceImagePaths :: "generator \<Rightarrow> jsstring \<Rightarrow> jsstring" where
  "replaceImagePaths g markdownContent =
     (let updated =
            foldl (\<lambda>text e. replaceImageRefs (fst e) (js ''![$1]('' @ localPath (snd e) @ js '')'') [] text)
              markdownContent (imageMap g)
      in foldl (\<lambda>text failedImg.
                  replaceImageRefs (failUrl failedImg)
                    (failedReplacement (failError failedImg) (failUrl failedImg)) [] text)
           updated (failedImages g))"


subsection \<open>Failure report\<close>

definition unknownPageTitle :: "jsstring" where
  "unknownPageTitle =
     [26410, 30693, 39029, 38754]"

definition defaultAltText :: "jsstring" where
  "defaultAltText =
     [22270, 29255]"

definition reportHeader :: "jsstring \<Rightarrow> nat \<Rightarrow> jsstring" where
  "reportHeader now n =
     js ''# '' @ [22270, 29255, 19979, 36733, 22833, 36133, 25253, 21578, 10, 10] @ [29983,
       25104, 26102, 38388] @ js '': '' @ now @ [10, 10] @ [20849, 26377] @ js '' **'' @
       showNat n @ js ''** '' @ [24352, 22270, 29255, 19979, 36733, 22833, 36133, 65292,
       38656, 35201, 25163, 21160, 22788, 29702, 12290, 10, 10] @ js ''---'' @ [10, 10]"

definition reportGroupHeader :: "jsstring \<Rightarrow> nat \<Rightarrow> jsstring" where
  "reportGroupHeader pageTitle k =
     js ''## '' @ [55357, 56516] @ js '' '' @ pageTitle @ [10, 10] @ [35813, 39029, 38754,
       26377] @ js '' '' @ showNat k @ js '' '' @ [24352, 22270, 29255, 19979, 36733, 22833,
       36133, 65306, 10, 10]"

definition adviceBlocked :: "jsstring" where
  "adviceBlocked =
     js ''- '' @ [9989] @ js '' '' @ [22312, 27983, 35272, 22120, 20013, 25171, 24320,
       38142, 25509, 65292, 21491, 38190, 20445, 23384, 22270, 29255, 10] @ js ''- '' @
       [9989] @ js '' '' @ [20351, 29992, 25130, 22270, 24037, 20855, 25130, 21462, 32593,
       39029, 19978, 30340, 22270, 29255, 10] @ js ''- '' @ [9989] @ js '' '' @ [20351,
       29992, 27983, 35272, 22120, 30340, 34, 26816, 26597, 20803, 32032, 34, 21151, 33021,
       65292, 22312] @ js ''Network'' @ [26631, 31614, 20013, 25214, 21040, 22270, 29255,
       24182, 20445, 23384, 10]"

definition adviceNotFound :: "jsstring" where
  "adviceNotFound =
     js ''- '' @ [9888, 65039] @ js '' '' @ [22270, 29255, 38142, 25509, 24050, 22833,
       25928, 65292, 26080, 27861, 35775, 38382, 10] @ js ''- '' @ [9989] @ js '' '' @
       [26816, 26597, 32593, 39029, 19978, 26159, 21542, 36824, 33021, 30475, 21040, 36825,
       24352, 22270, 29255, 10] @ js ''- '' @ [9989] @ js '' '' @ [22914, 26524, 22270,
       29255, 37325, 35201, 65292, 23581, 35797, 20351, 29992, 20114, 32852, 32593, 26723,
       26696, 39302, 65288] @ js ''Wayback Machine'' @ [65289, 26597, 25214, 21382, 21490,
       29256, 26412, 10]"

definition adviceOther :: "jsstring" where
  "adviceOther =
     js ''- '' @ [9989] @ js '' '' @ [22312, 27983, 35272, 22120, 20013, 30452, 25509,
       25171, 24320, 38142, 25509, 23581, 35797, 35775, 38382, 10] @ js ''- '' @ [9989] @
       js '' '' @ [22914, 26524, 33021, 35775, 38382, 65292, 25163, 21160, 21491, 38190,
       20445, 23384, 22270, 29255, 10]"

definition reportEntry :: "nat \<Rightarrow> failedImage \<Rightarrow> jsstring" where
  "reportEntry i img =
     js ''### '' @ showNat i @ js ''. '' @ [22270, 29255, 20449, 24687, 10, 10] @
       (if failAlt img \<noteq> [] then js ''- **'' @ [22270, 29255, 25551, 36848] @
       js ''**: '' @ failAlt img @ [10] else []) @
       (if failContext img \<noteq> [] then js ''- **'' @ [19978, 19979, 25991] @
       js ''**: '' @ failContext img @ js ''...'' @ [10] else []) @ js ''- **'' @ [22833,
       36133, 21407, 22240] @ js ''**: '' @ [96] @ failError img @ [96, 10] @ js ''- **'' @
       [21407, 22987, 38142, 25509] @ js ''**: '' @ [10] @ js ''  '' @ [96, 96, 96, 10] @
       js ''  '' @ failUrl img @ [10] @ js ''  '' @ [96, 96, 96, 10] @ [10] @ js ''**'' @
       [22788, 29702, 24314, 35758] @ js ''**:'' @ [10] @
       (if includes_js (failError img) (js ''CORS'') \<or>
           includes_js (failError img) (js ''blocked'')
        then adviceBlocked
        else if includes_js (failError img) (js ''404'') \<or>
                includes_js (failError img) (js ''HTTP'')
        then adviceNotFound
        else adviceOther) @
       [10] @ js ''**'' @ [26367, 25442, 27493, 39588] @ js ''**:'' @ [10] @ js ''1. '' @
       [19979, 36733, 25110, 25130, 21462, 22270, 29255, 65292, 20445, 23384, 21040] @
       js '' '' @ [96] @ js ''images/'' @ [96] @ js '' '' @ [25991, 20214, 22841, 10] @
       js ''2. '' @ [23558, 22270, 29255, 37325, 21629, 21517, 20026] @ js '' '' @ [96] @
       js ''manual_'' @ showNat i @ js ''.jpg'' @ [96] @ js '' ('' @ [25110, 23545, 24212,
       26684, 24335] @ js '')'' @ [10] @ js ''3. '' @ [22312] @ js '' Markdown '' @ [25991,
       20214, 20013, 25628, 32034, 19978, 36848, 38142, 25509, 10] @ js ''4. '' @ [26367,
       25442, 20026] @ js '': '' @ [96] @ js ''!['' @
       (if failAlt img \<noteq> [] then failAlt img else defaultAltText) @
       js ''](./images/manual_'' @ showNat i @ js ''.jpg)'' @ [96, 10] @ [10] @ js ''---'' @
       [10, 10]"

definition reportListHeader :: "jsstring" where
  "reportListHeader =
     js ''## '' @ [55357, 56523] @ js '' '' @ [25209, 37327, 22788, 29702, 28165, 21333, 10,
       10] @ [21487, 20197, 22797, 21046, 20197, 19979, 38142, 25509, 21015, 34920, 65292,
       20351, 29992, 19979, 36733, 24037, 20855, 25209, 37327, 19979, 36733, 65306, 10,
       10] @ [96, 96, 96] @ js ''text'' @ [10]"

definition reportListLine :: "failedImage \<Rightarrow> jsstring" where
  "reportListLine img =
     failUrl img @ [10]"

definition reportFooter :: "jsstring" where
  "reportFooter =
     [96, 96, 96, 10, 10] @ js ''---'' @ [10, 10] @ [55357, 56481] @ js '' **'' @ [25552,
       31034] @ js ''**: '' @ [22312] @ js '' Markdown '' @ [25991, 20214, 20013, 25628,
       32034] @ js '' '' @ [34, 9888, 65039] @ js '' **'' @ [22270, 29255, 21152, 36733,
       22833, 36133] @ js ''**'' @ [34] @ js '' '' @ [21487, 20197, 24555, 36895, 23450,
       20301, 25152, 26377, 22833, 36133, 30340, 22270, 29255, 20301, 32622, 12290, 10]"


fun groupAdd ::
  "(jsstring \<times> failedImage list) list \<Rightarrow> jsstring \<Rightarrow> failedImage \<Rightarrow> (jsstring \<times> failedImage list) list" where
  "groupAdd [] k img = [(k, [img])]"
| "groupAdd (e # es) k img = (if fst e = k then (k, snd e @ [img]) # es else e # groupAdd es k img)"

definition groupedByPage :: "failedImage list \<Rightarrow> (jsstring \<times> failedImage list) list" where
  "groupedByPage fs =
     foldl (\<lambda>m img. groupAdd m (if failPage img = [] then unknownPageTitle else failPage img) img) [] fs"

fun reportEntries :: "nat \<Rightarrow> failedImage list \<Rightarrow> jsstring" where
  "reportEntries i [] = []"
| "reportEntries i (img # rest) = reportEntry i img @ reportEntries (i + 1) rest"

fun reportGroups :: "nat \<Rightarrow> (jsstring \<times> failedImage list) list \<Rightarrow> jsstring" where
  "reportGroups i [] = []"
| "reportGroups i (grp # rest) =
     reportGroupHeader (fst grp) (length (snd grp)) @ reportEntries i (snd grp)
     @ reportGroups (i + length (snd grp)) rest"

definition generateFailureReport :: "generator \<Rightarrow> jsstring \<Rightarrow> jsstring option" where
  "generateFailureReport g now =
     (if failedImages g = [] then None
      else Some (reportHeader now (length (failedImages g))
                 @ reportGroups 1 (groupedByPage (failedImages g))
                 @ reportListHeader @ concat (map reportListLine (failedImages g))
                 @ reportFooter))"

subsection \<open>Assembly and packaging\<close>

definition titleOrUnnamed :: "jsstring \<Rightarrow> jsstring" where
  "titleOrUnnamed t = (if t = [] then unnamedPage else t)"

definition isWordChar :: "jschar \<Rightarrow> bool" where
  "isWordChar c = ((48 \<le> c \<and> c \<le> 57) \<or> (65 \<le> c \<and> c \<le> 90) \<or> (97 \<le> c \<and> c \<le> 122) \<or> c = 95)"

definition anchorOf :: "jsstring \<Rightarrow> jsstring" where
  "anchorOf t =
     (let a = collapseRuns (\<lambda>c. \<not> isWordChar c) 45 (toLowerCase (trim t))
      in rev (dropWhile (\<lambda>c. c = 45) (rev (dropWhile (\<lambda>c. c = 45) a))))"

definition tocLine :: "fetchedPage \<Rightarrow> jsstring" where
  "tocLine page =
     repeat_js (js ''  '') ((if level page = 0 then 1 else level page) - 1)
     @ js ''* ['' @ titleOrUnnamed (title page) @ js ''](#'' @ anchorOf (titleOrUnnamed (title page))
     @ js '')'' @ [10]"

definition pageSection :: "host \<Rightarrow> fetchedPage \<Rightarrow> jsstring" where
  "pageSection h page =
     js ''# '' @ titleOrUnnamed (title page) @ [10, 10]
     @ htmlToMarkdown (parseBody h) (html (content page)) @ [10, 10] @ js ''---'' @ [10, 10]"

definition imageCountNote :: "nat \<Rightarrow> jsstring" where
  "imageCountNote n =
     js ''> '' @ [55357, 56541] @ js '' '' @ [26412, 25991, 26723, 21253, 21547] @
       js '' '' @ showNat n @ js '' '' @ [24352, 26412, 22320, 22270, 29255, 10, 10]"

definition tocHeading :: "jsstring" where
  "tocHeading =
     js ''## '' @ [30446, 24405, 10, 10]"


definition assembleMarkdown :: "host \<Rightarrow> jsstring \<Rightarrow> fetchedPage list \<Rightarrow> nat \<Rightarrow> jsstring" where
  "assembleMarkdown h optionsTitle pageContents downloadedCount =
     js ''# '' @ optionsTitle @ [10, 10]
     @ (if downloadedCount > 0 then imageCountNote downloadedCount else [])
     @ (if length pageContents > 1
        then tocHeading @ concat (map tocLine pageContents) @ [10] else [])
     @ concat (map (pageSection h) pageContents)"

definition sanitizeFileName :: "jsstring \<Rightarrow> jsstring" where
  "sanitizeFileName filename =
     (let s1 = map (\<lambda>c. if c \<in> set [92, 47, 58, 42, 63, 34, 60, 62, 124] then 45 else c) filename;
          s2 = trim (collapseRuns (\<lambda>c. c = 45) 45 (collapseRuns isSpace 32 s1));
          s3 = (if length s2 > 100 then take 100 s2 else s2)
      in if s3 = [] then js ''document'' else s3)"

datatype zipContent = TextFile jsstring | BinaryFile blob

datatype artifact =
    MarkdownDownload jsstring jsstring
  | ZipDownload jsstring "(jsstring \<times> zipContent) list"
  | PdfPreview "fetchedPage list"

definition reportFileName :: "jsstring" where
  "reportFileName =
     [9888, 65039] @ js '' '' @ [22270, 29255, 22833, 36133, 25253, 21578] @ js ''.md''"

definition zipErrorPrefix :: "jsstring" where
  "zipErrorPrefix =
     [25171, 21253, 22833, 36133] @ js '': ''"


definition zipEntries ::
  "generator \<Rightarrow> jsstring \<Rightarrow> jsstring \<Rightarrow> jsstring \<Rightarrow> imageInfo list \<Rightarrow> (jsstring \<times> zipContent) list" where
  "zipEntries g now markdownContent safeTitle downloadedImages =
     (let z0 = mapSet [] (safeTitle @ js ''.md'') (TextFile markdownContent);
          z1 = foldl (\<lambda>z imageInfo.
                        if fileName imageInfo \<noteq> []
                        then mapSet z (js ''images/'' @ fileName imageInfo) (BinaryFile (imageData imageInfo))
                        else z) z0 downloadedImages
      in case generateFailureReport g now of
           Some failureReport \<Rightarrow> mapSet z1 reportFileName (TextFile failureReport)
         | None \<Rightarrow> z1)"

definition downloadMarkdownWithImages ::
  "host \<Rightarrow> generator \<Rightarrow> jsstring \<Rightarrow> jsstring \<Rightarrow> imageInfo list \<Rightarrow> artifact promise" where
  "downloadMarkdownWithImages h g markdownContent t downloadedImages =
     (case zipError h of
        Some message \<Rightarrow> Rejected (zipErrorPrefix @ message)
      | None \<Rightarrow>
          Fulfilled (ZipDownload (sanitizeFileName t @ js ''.zip'')
            (zipEntries g (currentTime h) markdownContent (sanitizeFileName t) downloadedImages)))"

subsection \<open>The two generation calls\<close>

definition noPagesMessage :: "jsstring" where
  "noPagesMessage =
     [26410, 21457, 29616, 20219, 20309, 30456, 20851, 39029, 38754, 65292, 35831, 26816,
       26597, 39029, 38754, 32467, 26500]"


record generation =
  outcome :: "artifact promise"
  pageRequests :: "jsstring list"
  generatorAfter :: generator
  downloadedImages :: "imageInfo list"
  completeMarkdown :: jsstring

definition freshGenerator :: generator where
  "freshGenerator =
     \<lparr>imageMap = [], imageCounter = 0, failedImages = [], downloadLog = [], nameLog = []\<rparr>"

definition generateCompleteMarkdown :: "host \<Rightarrow> jsstring \<Rightarrow> generation" where
  "generateCompleteMarkdown h optionsTitle =
     (let allPages = discoverAllPages (querySelectorAll h) (newURL h)
      in if allPages = [] then
           \<lparr>outcome = Rejected noPagesMessage, pageRequests = [], generatorAfter = freshGenerator,
            downloadedImages = [], completeMarkdown = []\<rparr>
         else
           (case batchFetchPages h allPages of
              Rejected message \<Rightarrow>
                \<lparr>outcome = Rejected message, pageRequests = requested (batchFetchRun h allPages),
                 generatorAfter = freshGenerator, downloadedImages = [], completeMarkdown = []\<rparr>
            | Fulfilled pageContents \<Rightarrow>
                (let allImageInfos =
                       concat (map (\<lambda>page. collectImagesFromHTML h (html (content page)) (title page))
                                 pageContents);
                     uniqueImages = uniqueByUrl allImageInfos;
                     dl = (if uniqueImages \<noteq> []
                           then batchDownloadImages h freshGenerator (map refUrl uniqueImages)
                                  unknownPageTitle
                           else ([], freshGenerator));
                     g = (snd dl)\<lparr>failedImages :=
                            map (updateFailedContext uniqueImages) (failedImages (snd dl))\<rparr>;
                     md0 = assembleMarkdown h optionsTitle pageContents (length (fst dl));
                     md = (if fst dl \<noteq> [] then replaceImagePaths g md0 else md0)
                 in \<lparr>outcome =
                        (if fst dl \<noteq> [] then downloadMarkdownWithImages h g md optionsTitle (fst dl)
                         else Fulfilled (MarkdownDownload (optionsTitle @ js ''.md'') md)),
                     pageRequests = requested (batchFetchRun h allPages),
                     generatorAfter = g, downloadedImages = fst dl, completeMarkdown = md\<rparr>)))"

definition generateCompletePDF :: "host \<Rightarrow> generation" where
  "generateCompletePDF h =
     (let allPages = discoverAllPages (querySelectorAll h) (newURL h)
      in if allPages = [] then
           \<lparr>outcome = Rejected noPagesMessage, pageRequests = [], generatorAfter = freshGenerator,
            downloadedImages = [], completeMarkdown = []\<rparr>
         else
           (case batchFetchPages h allPages of
              Rejected message \<Rightarrow>
                \<lparr>outcome = Rejected message, pageRequests = requested (batchFetchRun h allPages),
                 generatorAfter = freshGenerator, downloadedImages = [], completeMarkdown = []\<rparr>
            | Fulfilled pageContents \<Rightarrow>
                \<lparr>outcome = Fulfilled (PdfPreview pageContents),
                 pageRequests = requested (batchFetchRun h allPages),
                 generatorAfter = freshGenerator, downloadedImages = [], completeMarkdown = []\<rparr>))"

section \<open>A sample site\<close>

text \<open>
  A small documentation site on which the statements below are exercised. Its navigation
  lists three pages out of level order and repeats one of them. Page \<open>a\<close> is the seed page,
  page \<open>b\<close> is fetched directly, and page \<open>c\<close> answers 404 both to the direct fetch and
  to the background worker. Pages \<open>a\<close> and \<open>b\<close> both show the image \<open>x.png\<close>; the image
  \<open>y.png\<close> fails to download.
\<close>

definition sampleAnchor :: "string \<Rightarrow> string \<Rightarrow> nat \<Rightarrow> anchor" where
  "sampleAnchor h t depth =
     \<lparr>href = Some (js h), textContent = js t, className = [],
      ancestors = replicate depth \<lparr>matchesNavRoot = False, matchesItem = True\<rparr>
                  @ [\<lparr>matchesNavRoot = True, matchesItem = False\<rparr>]\<rparr>"

definition sampleNav :: "jsstring \<Rightarrow> anchor list" where
  "sampleNav selector =
     (if selector = js ''nav a[href]''
      then [sampleAnchor ''b'' ''Setup'' 2, sampleAnchor ''a'' ''Intro'' 1,
            sampleAnchor ''c'' ''Usage'' 2, sampleAnchor ''a'' ''Intro again'' 3]
      else if selector = js ''.sidebar a[href]''
      then [sampleAnchor ''a'' ''Intro'' 1, sampleAnchor ''#'' ''Top'' 1]
      else [])"

definition sampleURL :: "jsstring \<Rightarrow> jsstring option" where
  "sampleURL x =
     (if startsWith x (js ''http'') then Some x else Some (js ''https://duruofu.github.io/'' @ x))"

definition sampleLink :: "string \<Rightarrow> string \<Rightarrow> string \<Rightarrow> nat \<Rightarrow> pageLink" where
  "sampleLink u h t depth =
     \<lparr>url = js u, title = js t, level = depth + 1, element = sampleAnchor h t depth\<rparr>"

definition sampleImg :: "string \<Rightarrow> string \<Rightarrow> node" where
  "sampleImg src alt = Element (js ''IMG'') [(js ''src'', js src), (js ''alt'', js alt)] False []"

definition sampleBody :: "jsstring \<Rightarrow> node" where
  "sampleBody t =
     (if t = js ''A'' then
        Element (js ''BODY'') [] False
          [Element (js ''P'') [] False
             [TextNode (js ''Intro''), sampleImg ''https://duruofu.github.io/x.png'' ''x''],
           Element (js ''P'') [] False [sampleImg ''https://duruofu.github.io/y.png'' ''y'']]
      else if t = js ''B'' then
        Element (js ''BODY'') [] False
          [Element (js ''P'') [] False
             [TextNode (js ''Setup''), sampleImg ''https://duruofu.github.io/x.png'' ''again''],
           Element (js ''P'') [] False [sampleImg ''https://duruofu.github.io/z.png'' ''z'']]
      else Element (js ''BODY'') [] False [Element (js ''P'') [] False [TextNode t]])"

definition sampleHost :: host where
  "sampleHost =
     \<lparr>locationHref = js ''https://duruofu.github.io/a'',
      querySelectorAll = sampleNav,
      newURL = sampleURL,
      pathnameOf = (\<lambda>x. Some (drop 25 x)),
      fetchText = (\<lambda>u. if u = js ''https://duruofu.github.io/c''
                        then Fulfilled (HttpResponse False 404 (js ''Not Found'') (Fulfilled []))
                        else Fulfilled (HttpResponse True 200 (js ''OK'') (Fulfilled (js ''B'')))),
      sendFetchPage = (\<lambda>u. Reply False [] (Some (js ''HTTP 404: Not Found''))),
      parseHTMLContent =
        (\<lambda>t u. \<lparr>html = t, contentTitle = js ''Setup'', styles = [], textLength = 500\<rparr>),
      extractCurrentPageContent =
        Inr \<lparr>html = js ''A'', contentTitle = js ''Intro'', styles = [], textLength = 300\<rparr>,
      parseBody = sampleBody,
      fetchImage = (\<lambda>u. if u = js ''https://duruofu.github.io/y.png'' then None
                         else Some \<lparr>contentType = js ''image/png'', imageBlob = [137, 80, 78, 71]\<rparr>),
      finishRank = (\<lambda>n. 10 - n),
      zipError = None,
      currentTime = js ''2025/1/1 00:00:00''\<rparr>"

text \<open>The fragment of an ordered list with two items, and its parsed body.\<close>

definition olFragment :: jsstring where
  "olFragment = js ''<ol><li>one</li><li>two</li></ol>''"

definition olBody :: node where
  "olBody =
     Element (js ''BODY'') [] False
       [Element (js ''OL'') [] False
          [Element (js ''LI'') [] False [TextNode (js ''one'')],
           Element (js ''LI'') [] False [TextNode (js ''two'')]]]"

definition fragmentParser :: "jsstring \<Rightarrow> node" where
  "fragmentParser t =
     (if t = olFragment then olBody else Element (js ''BODY'') [] False [TextNode t])"

text \<open>Two variants: the archive cannot be built; the navigation holds no link.\<close>

definition zipFailingHost :: host where
  "zipFailingHost = sampleHost\<lparr>zipError := Some (js ''quota exceeded'')\<rparr>"

definition emptyNavHost :: host where
  "emptyNavHost = sampleHost\<lparr>querySelectorAll := (\<lambda>selector. [])\<rparr>"

section \<open>Notions used in the statements and proofs\<close>

text \<open>
  Decimal and hexadecimal digits, the number read back from a decimal string, and the
  counter part of an image file name (the digits after \<open>img_\<close>).
\<close>

definition isDigit :: "jschar \<Rightarrow> bool" where
  "isDigit c = (48 \<le> c \<and> c \<le> 57)"

definition isHexDigit :: "jschar \<Rightarrow> bool" where
  "isHexDigit c = ((48 \<le> c \<and> c \<le> 57) \<or> (97 \<le> c \<and> c \<le> 102))"

definition readNat :: "jsstring \<Rightarrow> nat" where
  "readNat s = foldl (\<lambda>a d. 10 * a + nat (d - 48)) 0 s"

definition nameNumber :: "jsstring \<Rightarrow> nat" where
  "nameNumber name = readNat (takeWhile isDigit (drop 4 name))"

text \<open>
  The invariant behind distinct file names: every name handed out so far carries a
  counter value that is at most the current counter, and no two carry the same one.
\<close>

definition namesNumbered :: "generator \<Rightarrow> bool" where
  "namesNumbered g =
     (list_all (\<lambda>n. nameNumber n \<le> imageCounter g) (nameLog g) \<and>
      distinct (map nameNumber (nameLog g)))"

subsection \<open>Markdown as a sequence of segments\<close>

text \<open>
  The statements about path rewriting read a Markdown text as a sequence of segments:
  stretches of plain text and image references \<open>![alt](target)\<close>. \<open>renderDoc\<close> writes
  a sequence back as text. A segment is well formed if a plain stretch holds no
  exclamation mark, the alternative text of a reference holds neither an exclamation
  mark nor a closing bracket, and its target holds neither an exclamation mark nor a
  closing parenthesis; then the text is read back in one way only.
\<close>

datatype segment = Plain jsstring | ImageRef jsstring jsstring










definition passes :: "('e \<Rightarrow> segment \<Rightarrow> segment list) \<Rightarrow> 'e list \<Rightarrow> segment list \<Rightarrow> segment list" where
  "passes p es segs = foldl (\<lambda>sg e. concat (map (p e) sg)) segs es"


subsection \<open>The state of a run\<close>








text \<open>
  The values that \<open>generateCompleteMarkdown\<close> binds on its way: the fetched pages, the
  image URLs collected from one page, the images after deduplication and their URLs,
  and the Markdown text as it is assembled before the paths are rewritten.
\<close>

definition fetchedPages :: "host \<Rightarrow> fetchedPage list" where
  "fetchedPages h = contents (batchFetchRun h (discoverAllPages (querySelectorAll h) (newURL h)))"


definition uniqueImages :: "host \<Rightarrow> imageRef list" where
  "uniqueImages h =
     uniqueByUrl (concat (map (\<lambda>page. collectImagesFromHTML h (html (content page)) (title page))
                            (fetchedPages h)))"



subsection \<open>The sample site with failing images\<close>











section \<open>The sample site, evaluated\<close>

lemma sample_collect:
  "collectLinks sampleNav sampleURL =
     [sampleLink ''https://duruofu.github.io/b'' ''b'' ''Setup'' 2,
      sampleLink ''https://duruofu.github.io/a'' ''a'' ''Intro'' 1,
      sampleLink ''https://duruofu.github.io/c'' ''c'' ''Usage'' 2]"
  by code_simp

lemma sample_pages:
  "discoverAllPages sampleNav sampleURL =
     [sampleLink ''https://duruofu.github.io/a'' ''a'' ''Intro'' 1,
      sampleLink ''https://duruofu.github.io/b'' ''b'' ''Setup'' 2,
      sampleLink ''https://duruofu.github.io/c'' ''c'' ''Usage'' 2]"
  by code_simp

lemma sample_fetch:
  "fetchPageContent sampleHost (js ''https://duruofu.github.io/a'') =
     Fulfilled \<lparr>html = js ''A'', contentTitle = js ''Intro'', styles = [], textLength = 300\<rparr>"
  "fetchPageContent sampleHost (js ''https://duruofu.github.io/b'') =
     Fulfilled \<lparr>html = js ''B'', contentTitle = js ''Setup'', styles = [], textLength = 500\<rparr>"
  "fetchPageContent sampleHost (js ''https://duruofu.github.io/c'') =
     Rejected (js ''HTTP 404: Not Found'')"
  by code_simp+


section \<open>Link discovery: no duplicate URLs, levels between 1 and 6\<close>

lemma levelLoop_ge: "lv \<le> levelLoop lv ps"
proof (induction ps arbitrary: lv)
  case Nil show ?case by simp
next
  case (Cons p ps)
  show ?case using Cons.IH[of lv] Cons.IH[of "lv+1"] by auto
qed

lemma calculateLinkLevel_range: "1 \<le> calculateLinkLevel a \<and> calculateLinkLevel a \<le> 6"
  using levelLoop_ge[of 1 "ancestors a"] by (auto simp: calculateLinkLevel_def Let_def)

lemma visitLink_distinct:
  "distinct (map url links) \<Longrightarrow> distinct (map url (visitLink nu links a))"
  by (auto simp: visitLink_def Let_def list_ex_iff)

lemma visitLink_level:
  "\<forall>p\<in>set links. 1 \<le> level p \<and> level p \<le> 6 \<Longrightarrow>
   \<forall>p\<in>set (visitLink nu links a). 1 \<le> level p \<and> level p \<le> 6"
  using calculateLinkLevel_range[of a] by (auto simp: visitLink_def Let_def)

definition linksOk :: "pageLink list \<Rightarrow> bool" where
  "linksOk links = (distinct (map url links) \<and> (\<forall>p\<in>set links. 1 \<le> level p \<and> level p \<le> 6))"

lemma visitLink_ok: "linksOk links \<Longrightarrow> linksOk (visitLink nu links a)"
  unfolding linksOk_def using visitLink_distinct visitLink_level by blast

lemma foldl_visitLink_ok: "linksOk links \<Longrightarrow> linksOk (foldl (visitLink nu) links as)"
  by (induction as arbitrary: links) (auto intro: visitLink_ok)

lemma foldl_selectors_ok:
  "linksOk links \<Longrightarrow>
   linksOk (foldl (\<lambda>links selector. foldl (visitLink nu) links (q selector)) links sels)"
  by (induction sels arbitrary: links) (auto intro: foldl_visitLink_ok)

lemma collectLinks_ok: "linksOk (collectLinks q nu)"
  unfolding collectLinks_def by (rule foldl_selectors_ok) (simp add: linksOk_def)

lemma mset_sortInsert: "mset (sortInsert cmp x ys) = add_mset x (mset ys)"
  by (induction ys) auto

lemma mset_arraySort: "mset (arraySort cmp xs) = mset xs"
  by (induction xs) (auto simp: mset_sortInsert)

lemma set_arraySort: "set (arraySort cmp xs) = set xs"
  using mset_arraySort[of cmp xs] by (metis set_mset_mset)

lemma distinct_map_mset: "mset xs = mset ys \<Longrightarrow> distinct (map f xs) = distinct (map f ys)"
  by (metis distinct_count_atmost_1 mset_map mset_eq_setD set_mset_mset count_mset)

text \<open>
  Claim C5. Whatever the seed page looks like, the list returned by \<open>discoverAllPages\<close>
  holds no two entries with the same URL, and the level of every entry is at least 1 and
  at most 6.
\<close>

theorem discoverAllPages_distinct_levels:
  "distinct (map url (discoverAllPages q nu)) \<and>
   (\<forall>p \<in> set (discoverAllPages q nu). 1 \<le> level p \<and> level p \<le> 6)"
  using collectLinks_ok[of q nu] distinct_map_mset[OF mset_arraySort[of linkCompare "collectLinks q nu"], of url]
  by (simp add: discoverAllPages_def linksOk_def set_arraySort)

theorem discoverAllPages_distinct_levels_witness:
  "map level (discoverAllPages sampleNav sampleURL) = [2, 3, 3] \<and>
   distinct (map url (discoverAllPages sampleNav sampleURL)) \<and>
   list_all (\<lambda>p. 1 \<le> level p \<and> level p \<le> 6) (discoverAllPages sampleNav sampleURL)"
  using discoverAllPages_distinct_levels[of sampleNav sampleURL]
  by (simp add: sample_pages sampleLink_def list_all_iff)


section \<open>Link discovery: a stable sort by level\<close>

lemma linkCompare_pos: "(linkCompare a b > 0) = (level b < level a)"
  by (auto simp: linkCompare_def)

lemma set_sortInsert: "set (sortInsert cmp x ys) = insert x (set ys)"
  by (induction ys) auto

lemma sorted_sortInsert:
  "sorted (map level ys) \<Longrightarrow> sorted (map level (sortInsert linkCompare x ys))"
  by (induction ys) (auto simp: linkCompare_pos set_sortInsert)

lemma sorted_arraySort: "sorted (map level (arraySort linkCompare xs))"
  by (induction xs) (auto simp: sorted_sortInsert)

lemma filter_sortInsert:
  "sorted (map level ys) \<Longrightarrow>
   filter (\<lambda>p. level p = k) (sortInsert linkCompare x ys) =
   filter (\<lambda>p. level p = k) (x # ys)"
  by (induction ys) (auto simp: linkCompare_pos)

lemma filter_arraySort:
  "filter (\<lambda>p. level p = k) (arraySort linkCompare xs) = filter (\<lambda>p. level p = k) xs"
  by (induction xs) (auto simp: filter_sortInsert sorted_arraySort)

text \<open>
  Claim C6. The list returned by \<open>discoverAllPages\<close> is ordered by level, and the sort is
  stable: the levels are non-decreasing along the list, and for every level the entries
  of that level appear in the order in which they were discovered (the order of
  \<open>collectLinks\<close>). The sort neither drops nor invents entries.
\<close>

theorem discoverAllPages_stable_by_level:
  "sorted (map level (discoverAllPages q nu)) \<and>
   (\<forall>k. filter (\<lambda>p. level p = k) (discoverAllPages q nu) =
        filter (\<lambda>p. level p = k) (collectLinks q nu)) \<and>
   mset (discoverAllPages q nu) = mset (collectLinks q nu)"
  by (simp add: discoverAllPages_def sorted_arraySort filter_arraySort mset_arraySort)


theorem discoverAllPages_stable_by_level_witness:
  "map title (collectLinks sampleNav sampleURL) = [js ''Setup'', js ''Intro'', js ''Usage''] \<and>
   map title (discoverAllPages sampleNav sampleURL) = [js ''Intro'', js ''Setup'', js ''Usage''] \<and>
   sorted (map level (discoverAllPages sampleNav sampleURL)) \<and>
   filter (\<lambda>p. level p = 3) (discoverAllPages sampleNav sampleURL) =
     filter (\<lambda>p. level p = 3) (collectLinks sampleNav sampleURL)"
  using discoverAllPages_stable_by_level[of sampleNav sampleURL]
  by (simp add: sample_pages sample_collect sampleLink_def)


section \<open>Title cleaning\<close>

lemma trimEnd_keeps_hd:
  assumes "s \<noteq> []" "\<not> isSpace (hd s)"
  shows "trimEnd s \<noteq> [] \<and> hd (trimEnd s) = hd s"
proof -
  obtain c cs where s: "s = c # cs" using assms(1) by (cases s) auto
  have "rev s = rev cs @ [c]" by (simp add: s)
  moreover have "\<not> isSpace c" using assms(2) s by simp
  ultimately have "dropWhile isSpace (rev s) = dropWhile isSpace (rev cs) @ [c]"
    by (simp add: dropWhile_append3)
  then show ?thesis by (simp add: trimEnd_def s)
qed

lemma trimEnd_last: "trimEnd s \<noteq> [] \<Longrightarrow> \<not> isSpace (last (trimEnd s))"
  unfolding trimEnd_def by (simp add: last_rev hd_dropWhile)

lemma trim_no_outer_space:
  "trim s = [] \<or> (\<not> isSpace (hd (trim s)) \<and> \<not> isSpace (last (trim s)))"
proof (cases "trimStart s = []")
  case True
  then show ?thesis by (simp add: trim_def trimEnd_def)
next
  case False
  then have "\<not> isSpace (hd (trimStart s))" by (simp add: trimStart_def hd_dropWhile)
  with False show ?thesis
    using trimEnd_keeps_hd[of "trimStart s"] trimEnd_last[of "trimStart s"]
    by (simp add: trim_def)
qed

lemma trim_fixed:
  assumes "s \<noteq> []" "\<not> isSpace (hd s)" "\<not> isSpace (last s)"
  shows "trim s = s"
proof -
  have 1: "trimStart s = s" using assms(1,2) by (cases s) (auto simp: trimStart_def)
  obtain ys y where r: "s = ys @ [y]" using assms(1) by (cases s rule: rev_cases) auto
  then have "dropWhile isSpace (rev s) = rev s" using assms(3) by simp
  then show ?thesis by (simp add: trim_def 1 trimEnd_def)
qed

lemma dropWhile_last: "dropWhile P s \<noteq> [] \<Longrightarrow> last (dropWhile P s) = last s"
  by (induction s) (auto split: if_splits)

lemma matchesHashesTail_last:
  assumes "matchesHashesTail s"
  shows "s \<noteq> [] \<and> (isSpace (last s) \<or> last s = 35)"
proof -
  let ?s1 = "dropWhile isSpace s"
  from assms obtain r where s1: "?s1 = 35 # r" and sp: "list_all isSpace (dropWhile (\<lambda>d. d = 35) r)"
    by (auto simp: matchesHashesTail_def Let_def split: list.splits)
  have ne: "s \<noteq> []" using s1 by auto
  have l1: "last s = last (35 # r)" using dropWhile_last[of isSpace s] s1 by simp
  have "isSpace (last (35 # r)) \<or> last (35 # r) = 35"
  proof (cases "dropWhile (\<lambda>d. d = 35) r = []")
    case True
    then have "\<forall>d\<in>set r. d = 35" by (simp add: dropWhile_eq_Nil_conv)
    then show ?thesis by (cases "r = []") auto
  next
    case False
    then have "last (dropWhile (\<lambda>d. d = 35) r) = last r" by (rule dropWhile_last)
    moreover have "isSpace (last (dropWhile (\<lambda>d. d = 35) r))"
      using sp False by (simp add: list_all_iff)
    moreover have "r \<noteq> []" using False by auto
    ultimately show ?thesis by simp
  qed
  with ne l1 show ?thesis by simp
qed

lemma matchesOneHashTail_imp:
  assumes "matchesOneHashTail s"
  shows "matchesHashesTail s"
proof -
  from assms obtain r where s1: "dropWhile isSpace s = 35 # r" and sp: "list_all isSpace r"
    by (auto simp: matchesOneHashTail_def Let_def split: list.splits)
  have "list_all isSpace (dropWhile (\<lambda>d. d = 35) r)"
    using sp by (auto simp: list_all_iff dest: set_dropWhileD)
  then show ?thesis using s1 by (simp add: matchesHashesTail_def)
qed

lemma removeTailMatch_id:
  assumes "\<And>s'. m s' \<Longrightarrow> s' \<noteq> [] \<and> (isSpace (last s') \<or> last s' = 35)"
  shows "s = [] \<or> (\<not> isSpace (last s) \<and> last s \<noteq> 35) \<Longrightarrow> removeTailMatch m s = s"
proof (induction s)
  case Nil
  show ?case by simp
next
  case (Cons c cs)
  have nm: "\<not> m (c # cs)" using assms[of "c # cs"] Cons.prems by auto
  have "cs = [] \<or> (\<not> isSpace (last cs) \<and> last cs \<noteq> 35)" using Cons.prems by auto
  then show ?case using Cons.IH nm by simp
qed


lemma cleanTitle_fixed:
  assumes ne: "r \<noteq> []" and s: "\<not> isSpace (hd r)" "\<not> isSpace (last r)"
    and h: "hd r \<noteq> 35" and l: "last r \<noteq> 35"
  shows "cleanTitle r = r"
proof -
  have 1: "stripLeadingHashes r = r" using ne h by (cases r) (simp_all add: stripLeadingHashes_def)
  have 2: "removeTailMatch matchesHashesTail r = r"
    by (rule removeTailMatch_id[OF matchesHashesTail_last]) (use s l in auto)
  have 3: "removeTailMatch matchesOneHashTail r = r"
    by (rule removeTailMatch_id[OF matchesHashesTail_last[OF matchesOneHashTail_imp]])
       (use s l in auto)
  have 4: "trim r = r" using trim_fixed[OF ne s] .
  show ?thesis using ne by (simp add: cleanTitle_def 1 2 3 4)
qed

lemma cleanTitle_no_outer_space:
  "cleanTitle t = [] \<or> (\<not> isSpace (hd (cleanTitle t)) \<and> \<not> isSpace (last (cleanTitle t)))"
proof (cases "t = []")
  case True
  then show ?thesis by (simp add: cleanTitle_def unnamedPage_def isSpace_def)
next
  case False
  then show ?thesis using trim_no_outer_space by (simp add: cleanTitle_def)
qed

text \<open>
  Claim C10, as stated, fails: \<open>cleanTitle\<close> is not idempotent, and its result can begin
  with \<open>#\<close>. Each pattern is applied once, so of two groups of \<open>#\<close> only the outer one is
  removed: \<open># #a\<close> is cleaned to \<open>#a\<close>, which a second call cleans to \<open>a\<close>.
\<close>

theorem cleanTitle_not_idempotent:
  "cleanTitle (cleanTitle (js ''# #a'')) \<noteq> cleanTitle (js ''# #a'') \<and>
   hd (cleanTitle (js ''# #a'')) = 35"
  by code_simp

text \<open>
  The same happens at the end of a title, and an emptied title is not a fixed point
  either, because the empty string is replaced by the default title.
\<close>

lemma cleanTitle_trailing_hash:
  "cleanTitle (js ''a ## #'') = js ''a #'' \<and> cleanTitle (js ''a #'') = js ''a''"
  by code_simp

lemma cleanTitle_emptied: "cleanTitle (js ''#'') = [] \<and> cleanTitle [] = unnamedPage"
  by code_simp

text \<open>
  Claim C10, amended. For every title, the result of \<open>cleanTitle\<close> neither begins nor ends
  with white space; and whenever the result is not empty and neither begins nor ends with
  \<open>#\<close>, cleaning it again leaves it unchanged.
\<close>

theorem cleanTitle_amended:
  "(cleanTitle t = [] \<or> (\<not> isSpace (hd (cleanTitle t)) \<and> \<not> isSpace (last (cleanTitle t)))) \<and>
   (cleanTitle t \<noteq> [] \<and> hd (cleanTitle t) \<noteq> 35 \<and> last (cleanTitle t) \<noteq> 35
      \<longrightarrow> cleanTitle (cleanTitle t) = cleanTitle t)"
  using cleanTitle_no_outer_space[of t] cleanTitle_fixed[of "cleanTitle t"] by blast



theorem cleanTitle_amended_witness:
  "cleanTitle (js ''## Title ##  '') = js ''Title'' \<and>
   cleanTitle (cleanTitle (js ''## Title ##  '')) = cleanTitle (js ''## Title ##  '')"
proof -
  have v: "cleanTitle (js ''## Title ##  '') = js ''Title''" by code_simp
  have "cleanTitle (js ''## Title ##  '') \<noteq> [] \<and> hd (cleanTitle (js ''## Title ##  '')) \<noteq> 35 \<and>
        last (cleanTitle (js ''## Title ##  '')) \<noteq> 35"
    unfolding v by (simp add: js_def)
  with cleanTitle_amended[of "js ''## Title ##  ''"] v show ?thesis by blast
qed

section \<open>Ordered lists in the Markdown converter\<close>

text \<open>
  Claim C7 says that the fragment \<open><ol><li>one</li><li>two</li></ol>\<close> is converted to
  \<open>1. one\n2. two\n\<close>. The converter keeps a counter \<open>start\<close> in the list state and
  increments it after each item, but the increment is applied to a copy of the state
  that is made afresh for every child, so it is lost and every item is numbered 1.
  The list, trimmed, is followed by the block separator of two newlines. The code
  therefore yields \<open>1. one\n1. two\n\n\<close>, which is not the text of the claim.
\<close>

theorem orderedList_repeats_number:
  "htmlToMarkdown fragmentParser olFragment = js ''1. one'' @ [10] @ js ''1. two'' @ [10, 10] \<and>
   htmlToMarkdown fragmentParser olFragment \<noteq> js ''1. one'' @ [10] @ js ''2. two'' @ [10]"
  by code_simp


section \<open>Page fetching\<close>

lemma fetchPageViaBackground_adopts: "fetchPageViaBackground h u = backgroundPromise h u"
  by (simp add: fetchPageViaBackground_def tryReturn_def)

lemma batchLoop_contents:
  "contents (batchLoop h i st links) =
     contents st @ map (\<lambda>k. fetchEntry h (i + k) (links ! k)) [0..<length links]"
proof (induction links arbitrary: i st)
  case Nil
  show ?case by simp
next
  case (Cons link rest)
  have "map (\<lambda>k. fetchEntry h (i + k) ((link # rest) ! k)) [0..<length (link # rest)] =
        fetchEntry h i link # map (\<lambda>k. fetchEntry h (i + 1 + k) (rest ! k)) [0..<length rest]"
    by (simp add: map_upt_Suc del: upt_Suc)
  then show ?case by (simp add: Cons.IH)
qed

lemma batchLoop_requested:
  "requested (batchLoop h i st links) = requested st @ map url links"
  by (induction links arbitrary: i st) simp_all

lemma fetchEntry_link: "pageLink.truncate (fetchEntry h i link) = link"
  by (simp add: fetchEntry_def pageLink.truncate_def pageLink.extend_def split: promise.splits)

lemma fetchEntry_index: "index (fetchEntry h i link) = i"
  by (simp add: fetchEntry_def pageLink.extend_def split: promise.splits)

lemma fetchEntry_content:
  "(case fetchPageContent h (url link) of
      Fulfilled c \<Rightarrow> if 0 < textLength c then content (fetchEntry h i link) = c
                     else textLength (content (fetchEntry h i link)) = 0
    | Rejected message \<Rightarrow> textLength (content (fetchEntry h i link)) = 0)"
  by (simp add: fetchEntry_def pageLink.extend_def split: promise.splits)

lemma batchFetchRun_contents:
  "contents (batchFetchRun h links) = map (\<lambda>k. fetchEntry h k (links ! k)) [0..<length links]"
  by (simp add: batchFetchRun_def batchLoop_contents)

text \<open>
  Claim C3. For every list of page links, \<open>batchFetchPages\<close> completes (its promise is
  fulfilled, never rejected) with exactly one entry per link, in the order of the links:
  entry \<open>i\<close> is link \<open>i\<close> extended by its index and its content. A page whose fetch
  was rejected, or came back with no text, is kept with a placeholder content of
  \<open>textLength = 0\<close>; a page with text keeps the content that was fetched.
\<close>

theorem batchFetchPages_keeps_every_page:
  "\<exists>cs. batchFetchPages h links = Fulfilled cs \<and> length cs = length links \<and>
        map pageLink.truncate cs = links \<and>
        (\<forall>i < length links.
           index (cs ! i) = i \<and>
           (case fetchPageContent h (url (links ! i)) of
              Fulfilled c \<Rightarrow> if 0 < textLength c then content (cs ! i) = c
                             else textLength (content (cs ! i)) = 0
            | Rejected message \<Rightarrow> textLength (content (cs ! i)) = 0))"
proof -
  let ?cs = "contents (batchFetchRun h links)"
  have 1: "batchFetchPages h links = Fulfilled ?cs" by (simp add: batchFetchPages_def)
  have 2: "length ?cs = length links" by (simp add: batchFetchRun_contents)
  have 3: "map pageLink.truncate ?cs = links"
    by (simp add: batchFetchRun_contents fetchEntry_link map_nth o_def)
  have 4: "index (?cs ! i) = i \<and>
           (case fetchPageContent h (url (links ! i)) of
              Fulfilled c \<Rightarrow> if 0 < textLength c then content (?cs ! i) = c
                             else textLength (content (?cs ! i)) = 0
            | Rejected message \<Rightarrow> textLength (content (?cs ! i)) = 0)" if "i < length links" for i
  proof -
    have n: "?cs ! i = fetchEntry h i (links ! i)"
      using that by (simp add: batchFetchRun_contents)
    show ?thesis
      unfolding n using fetchEntry_content[where h = h and link = "links ! i" and i = i]
      by (simp add: fetchEntry_index)
  qed
  show ?thesis using 1 2 3 4 by blast
qed

theorem batchFetchPages_keeps_every_page_witness:
  "\<exists>cs. batchFetchPages sampleHost (discoverAllPages sampleNav sampleURL) = Fulfilled cs \<and>
        length cs = 3 \<and>
        map pageLink.truncate cs = discoverAllPages sampleNav sampleURL \<and>
        index (cs ! 2) = 2 \<and>
        textLength (content (cs ! 0)) = 300 \<and> textLength (content (cs ! 1)) = 500 \<and>
        textLength (content (cs ! 2)) = 0"
proof -
  from batchFetchPages_keeps_every_page[of sampleHost "discoverAllPages sampleNav sampleURL"]
  obtain cs where cs: "batchFetchPages sampleHost (discoverAllPages sampleNav sampleURL) = Fulfilled cs"
    "length cs = length (discoverAllPages sampleNav sampleURL)"
    "map pageLink.truncate cs = discoverAllPages sampleNav sampleURL"
    and each: "\<forall>i < length (discoverAllPages sampleNav sampleURL).
           index (cs ! i) = i \<and>
           (case fetchPageContent sampleHost (url (discoverAllPages sampleNav sampleURL ! i)) of
              Fulfilled c \<Rightarrow> if 0 < textLength c then content (cs ! i) = c
                             else textLength (content (cs ! i)) = 0
            | Rejected message \<Rightarrow> textLength (content (cs ! i)) = 0)"
    by blast
  have len: "length cs = 3" using cs(2) by (simp add: sample_pages)
  have p: "discoverAllPages sampleNav sampleURL ! 0 = sampleLink ''https://duruofu.github.io/a'' ''a'' ''Intro'' 1"
    "discoverAllPages sampleNav sampleURL ! Suc 0 = sampleLink ''https://duruofu.github.io/b'' ''b'' ''Setup'' 2"
    "discoverAllPages sampleNav sampleURL ! 2 = sampleLink ''https://duruofu.github.io/c'' ''c'' ''Usage'' 2"
    by (simp_all add: sample_pages)
  have l: "0 < length (discoverAllPages sampleNav sampleURL)"
    "Suc 0 < length (discoverAllPages sampleNav sampleURL)"
    "2 < length (discoverAllPages sampleNav sampleURL)"
    by (simp_all add: sample_pages)
  have e: "index (cs ! 0) = 0" "index (cs ! 1) = 1" "index (cs ! 2) = 2"
    "textLength (content (cs ! 0)) = 300" "textLength (content (cs ! 1)) = 500"
    "textLength (content (cs ! 2)) = 0"
    using each[rule_format, OF l(1)] each[rule_format, OF l(2)] each[rule_format, OF l(3)]
    by (simp_all add: p sampleLink_def sample_fetch)
  with cs len e show ?thesis by blast
qed


text \<open>
  \<open>fetchPageViaBackground\<close> returns its promise without awaiting it, so the \<open>catch\<close> that
  would build the placeholder content is never entered: the function settles as the
  promise does.
\<close>

lemma fetchPageContent_rejects:
  assumes "u \<noteq> locationHref h" "fetchText h u = Rejected e" "sendFetchPage h u = LastError message"
  shows "fetchPageContent h u = Rejected message"
  using assms
  by (simp add: fetchPageContent_def fetchPageViaFetch_def fetchPageViaBackground_def
      backgroundPromise_def tryReturn_def tryReturnAwait_def)

text \<open>
  Claim C1 says that fetching a page never throws. On the sample site the page \<open>c\<close>
  answers 404 to the direct fetch and to the background worker, and \<open>fetchPageContent\<close>
  rejects with the worker's message instead of returning a placeholder content.
\<close>

theorem fetchPageContent_rejects_on_404:
  "js ''https://duruofu.github.io/c'' \<noteq> locationHref sampleHost \<and>
   fetchPageContent sampleHost (js ''https://duruofu.github.io/c'') =
     Rejected (js ''HTTP 404: Not Found'')"
  by code_simp


section \<open>The generation calls\<close>

text \<open>
  Claim C4, as stated, fails: with a non-empty page list the Markdown call still raises
  when the archive cannot be built (\<open>downloadMarkdownWithImages\<close> rethrows every error of
  its \<open>try\<close> block).
\<close>

theorem generateCompleteMarkdown_fails_on_packaging:
  "discoverAllPages (querySelectorAll zipFailingHost) (newURL zipFailingHost) \<noteq> [] \<and>
   outcome (generateCompleteMarkdown zipFailingHost (js ''Doc'')) =
     Rejected (zipErrorPrefix @ js ''quota exceeded'')"
  by code_simp

lemma downloadMarkdownWithImages_cases:
  "downloadMarkdownWithImages h g md t imgs =
     (case zipError h of
        Some e \<Rightarrow> Rejected (zipErrorPrefix @ e)
      | None \<Rightarrow> Fulfilled (ZipDownload (sanitizeFileName t @ js ''.zip'')
                   (zipEntries g (currentTime h) md (sanitizeFileName t) imgs)))"
  by (simp add: downloadMarkdownWithImages_def)

text \<open>
  Claim C4, amended. When link discovery yields no page, both generation calls raise the
  error "no pages found", and no page has been requested. When it yields at least one
  page, the PDF call completes, and the Markdown call raises only if building the
  archive fails, with that error: no failure of a page fetch or of an image download
  makes either call raise.
\<close>

theorem generation_fails_only_without_pages_or_archive:
  "(discoverAllPages (querySelectorAll h) (newURL h) = [] \<longrightarrow>
      outcome (generateCompleteMarkdown h t) = Rejected noPagesMessage \<and>
      pageRequests (generateCompleteMarkdown h t) = [] \<and>
      outcome (generateCompletePDF h) = Rejected noPagesMessage \<and>
      pageRequests (generateCompletePDF h) = []) \<and>
   (discoverAllPages (querySelectorAll h) (newURL h) \<noteq> [] \<longrightarrow>
      (\<exists>a. outcome (generateCompletePDF h) = Fulfilled a) \<and>
      (zipError h = None \<longrightarrow> (\<exists>a. outcome (generateCompleteMarkdown h t) = Fulfilled a)) \<and>
      (\<forall>message. outcome (generateCompleteMarkdown h t) = Rejected message \<longrightarrow>
         (\<exists>e. zipError h = Some e \<and> message = zipErrorPrefix @ e)))"
  by (auto simp: generateCompleteMarkdown_def generateCompletePDF_def batchFetchPages_def Let_def
      downloadMarkdownWithImages_cases split: option.splits)

theorem generation_fails_only_without_pages_or_archive_witness:
  "outcome (generateCompleteMarkdown emptyNavHost (js ''Doc'')) = Rejected noPagesMessage \<and>
   pageRequests (generateCompleteMarkdown emptyNavHost (js ''Doc'')) = [] \<and>
   outcome (generateCompletePDF emptyNavHost) = Rejected noPagesMessage \<and>
   pageRequests (generateCompletePDF emptyNavHost) = [] \<and>
   (\<exists>a. outcome (generateCompletePDF sampleHost) = Fulfilled a) \<and>
   (\<exists>a. outcome (generateCompleteMarkdown sampleHost (js ''Doc'')) = Fulfilled a)"
proof -
  have e: "discoverAllPages (querySelectorAll emptyNavHost) (newURL emptyNavHost) = []"
    by code_simp
  have s: "discoverAllPages (querySelectorAll sampleHost) (newURL sampleHost) \<noteq> []"
    by code_simp
  have z: "zipError sampleHost = None" by (simp add: sampleHost_def)
  show ?thesis
    using generation_fails_only_without_pages_or_archive[of emptyNavHost "js ''Doc''"]
      generation_fails_only_without_pages_or_archive[of sampleHost "js ''Doc''"] e s z
    by blast
qed


section \<open>Image file names\<close>

lemma showNat_digits: "list_all isDigit (showNat n)"
proof (induction n rule: showNat.induct)
  case (1 n)
  have d: "isDigit (digitChar (n mod 10))" by (simp add: isDigit_def digitChar_def)
  show ?case
  proof (cases "n < 10")
    case True
    then show ?thesis by (subst showNat.simps) (simp add: isDigit_def digitChar_def)
  next
    case False
    then show ?thesis using 1 d by (subst showNat.simps) simp
  qed
qed

lemma readNat_snoc: "readNat (s @ [d]) = 10 * readNat s + nat (d - 48)"
  by (simp add: readNat_def)

lemma readNat_showNat: "readNat (showNat n) = n"
proof (induction n rule: showNat.induct)
  case (1 n)
  show ?case
  proof (cases "n < 10")
    case True
    then show ?thesis by (subst showNat.simps) (simp add: readNat_def digitChar_def)
  next
    case False
    then have "readNat (showNat n) = 10 * readNat (showNat (n div 10)) + nat (digitChar (n mod 10) - 48)"
      by (subst showNat.simps) (simp add: readNat_snoc)
    also have "\<dots> = 10 * (n div 10) + n mod 10" using 1 False by (simp add: digitChar_def)
    finally show ?thesis by simp
  qed
qed

lemma nameNumber_img:
  "nameNumber (js ''img_'' @ showNat k @ js ''_'' @ rest) = k"
proof -
  have "drop 4 (js ''img_'' @ showNat k @ js ''_'' @ rest) = showNat k @ 95 # rest"
    by (simp add: js_def)
  moreover have "takeWhile isDigit (showNat k @ 95 # rest) = showNat k"
    using showNat_digits[of k] by (simp add: takeWhile_append2 list_all_iff isDigit_def)
  ultimately show ?thesis by (simp add: nameNumber_def readNat_showNat)
qed

lemma hexDigit_ok: "d < 16 \<Longrightarrow> isHexDigit (hexDigit d)"
  by (auto simp: isHexDigit_def hexDigit_def)

lemma toHex_digits: "list_all isHexDigit (toHex n)"
proof (induction n rule: toHex.induct)
  case (1 n)
  show ?case
  proof (cases "n < 16")
    case True
    then show ?thesis by (subst toHex.simps) (simp add: hexDigit_ok)
  next
    case False
    have "nat (n mod 16) < 16" by simp
    then show ?thesis using 1 False by (subst toHex.simps) (simp add: hexDigit_ok)
  qed
qed

lemma toHex_length: "0 < k \<Longrightarrow> n < 16 ^ k \<Longrightarrow> length (toHex n) \<le> k"
proof (induction k arbitrary: n)
  case 0
  then show ?case by simp
next
  case (Suc k)
  show ?case
  proof (cases "n < 16")
    case True
    then show ?thesis by (subst toHex.simps) simp
  next
    case False
    then have k: "0 < k" using Suc.prems by (cases k) auto
    define m :: int where "m = 16 ^ k"
    have "n < 16 * m" using Suc.prems(2) by (simp add: m_def)
    then have "n div 16 < m" by linarith
    then have "n div 16 < 16 ^ k" by (simp add: m_def)
    then have "length (toHex (n div 16)) \<le> k" using Suc.IH k by blast
    then show ?thesis using False by (subst toHex.simps) simp
  qed
qed

lemma hashHex_form: "length (hashHex u) = 8 \<and> list_all isHexDigit (hashHex u)"
proof -
  let ?n = "\<bar>sint (hashLoop 0 u)\<bar>"
  have "- (2 ^ 31) \<le> sint (hashLoop 0 u)" "sint (hashLoop 0 u) < 2 ^ 31"
    using sint_ge[of "hashLoop 0 u"] sint_lt[of "hashLoop 0 u"] by simp_all
  then have "?n < 16 ^ 8" by simp
  then have l: "length (toHex ?n) \<le> 8" by (intro toHex_length) simp_all
  have "isHexDigit 48" by (simp add: isHexDigit_def)
  then show ?thesis
    using l toHex_digits[of ?n] by (auto simp: hashHex_def padStart_def list_all_iff)
qed

lemma generateImageFileName_fields:
  "fst (generateImageFileName g u e) =
     js ''img_'' @ showNat (imageCounter g + 1) @ js ''_'' @ hashHex u @ js ''.'' @ e"
  "imageCounter (snd (generateImageFileName g u e)) = imageCounter g + 1"
  "nameLog (snd (generateImageFileName g u e)) = nameLog g @ [fst (generateImageFileName g u e)]"
  "imageMap (snd (generateImageFileName g u e)) = imageMap g"
  "failedImages (snd (generateImageFileName g u e)) = failedImages g"
  "downloadLog (snd (generateImageFileName g u e)) = downloadLog g"
  by (simp_all add: generateImageFileName_def Let_def)

lemma generateImageFileName_number:
  "nameNumber (fst (generateImageFileName g u e)) = imageCounter g + 1"
  by (simp only: generateImageFileName_fields nameNumber_img)

lemma generateImageFileName_numbered:
  assumes "namesNumbered g"
  shows "namesNumbered (snd (generateImageFileName g u e))"
proof -
  have "\<forall>n \<in> set (nameLog g). nameNumber n \<noteq> imageCounter g + 1"
    using assms by (auto simp: namesNumbered_def list_all_iff)
  then show ?thesis
    using assms
    by (auto simp: namesNumbered_def list_all_iff generateImageFileName_fields(2,3)
        generateImageFileName_number)
qed

lemma startTasks_snd:
  "snd (startTasks g i us) =
     g\<lparr>downloadLog := downloadLog g @ filter (\<lambda>u. \<not> mapHas (imageMap g) u) us\<rparr>"
proof (induction us arbitrary: g i)
  case Nil
  show ?case by simp
next
  case (Cons u us)
  show ?case by (simp add: Cons.IH Let_def)
qed


lemma completeTask_fields:
  "failedImages (snd (completeTask h acc t)) = failedImages (snd acc)"
  "downloadLog (snd (completeTask h acc t)) = downloadLog (snd acc)"
  by (simp_all add: completeTask_def Let_def generateImageFileName_fields split: option.splits prod.splits)

lemma completeTask_numbered:
  "namesNumbered (snd acc) \<Longrightarrow> namesNumbered (snd (completeTask h acc t))"
proof (cases "downloadImageAsBlob h (taskUrl t)")
  case None
  then show "namesNumbered (snd acc) \<Longrightarrow> ?thesis" by (simp add: completeTask_def)
next
  case (Some r)
  assume a: "namesNumbered (snd acc)"
  obtain b e where r: "r = (b, e)" by (cases r)
  have "namesNumbered (snd (generateImageFileName (snd acc) (taskUrl t) e))"
    using a by (rule generateImageFileName_numbered)
  then show ?thesis
    using Some r by (simp add: completeTask_def Let_def namesNumbered_def)
qed

lemma foldl_completeTask_numbered:
  "namesNumbered (snd acc) \<Longrightarrow> namesNumbered (snd (foldl (completeTask h) acc ts))"
  by (induction ts arbitrary: acc) (simp_all add: completeTask_numbered)

lemma foldl_completeTask_fields:
  "failedImages (snd (foldl (completeTask h) acc ts)) = failedImages (snd acc)"
  "downloadLog (snd (foldl (completeTask h) acc ts)) = downloadLog (snd acc)"
  by (induction ts arbitrary: acc) (simp_all add: completeTask_fields)

lemma collectOutcome_fields:
  "imageMap (snd (collectOutcome cached outs pt acc iu)) = imageMap (snd acc)"
  "imageCounter (snd (collectOutcome cached outs pt acc iu)) = imageCounter (snd acc)"
  "downloadLog (snd (collectOutcome cached outs pt acc iu)) = downloadLog (snd acc)"
  "nameLog (snd (collectOutcome cached outs pt acc iu)) = nameLog (snd acc)"
  by (simp_all add: collectOutcome_def split: option.splits taskOutcome.splits)

lemma foldl_collectOutcome_fields:
  "imageMap (snd (foldl (collectOutcome cached outs pt) acc zs)) = imageMap (snd acc)"
  "imageCounter (snd (foldl (collectOutcome cached outs pt) acc zs)) = imageCounter (snd acc)"
  "downloadLog (snd (foldl (collectOutcome cached outs pt) acc zs)) = downloadLog (snd acc)"
  "nameLog (snd (foldl (collectOutcome cached outs pt) acc zs)) = nameLog (snd acc)"
  by (induction zs arbitrary: acc) (simp_all add: collectOutcome_fields)

lemma downloadBatch_numbered:
  assumes "namesNumbered (snd acc)"
  shows "namesNumbered (snd (downloadBatch h pt acc batch))"
proof -
  have "namesNumbered (snd (startTasks (snd acc) 0 batch))"
    using assms by (simp add: startTasks_snd namesNumbered_def)
  then have "namesNumbered (snd (foldl (completeTask h) ([], snd (startTasks (snd acc) 0 batch))
      (sort_key (\<lambda>t. finishRank h (requestNo t)) (fst (startTasks (snd acc) 0 batch)))))"
    by (intro foldl_completeTask_numbered) simp
  then show ?thesis
    by (simp add: downloadBatch_def Let_def namesNumbered_def foldl_collectOutcome_fields)
qed

lemma downloadBatch_log:
  "downloadLog (snd (downloadBatch h pt acc batch)) =
     downloadLog (snd acc) @ filter (\<lambda>u. \<not> mapHas (imageMap (snd acc)) u) batch"
  by (simp add: downloadBatch_def Let_def foldl_collectOutcome_fields foldl_completeTask_fields
      startTasks_snd)

lemma foldl_downloadBatch_numbered:
  "namesNumbered (snd acc) \<Longrightarrow> namesNumbered (snd (foldl (downloadBatch h pt) acc bs))"
  by (induction bs arbitrary: acc) (simp_all add: downloadBatch_numbered)

lemma foldl_downloadBatch_log:
  "distinct (downloadLog (snd acc) @ concat bs) \<Longrightarrow>
   distinct (downloadLog (snd (foldl (downloadBatch h pt) acc bs)))"
proof (induction bs arbitrary: acc)
  case Nil
  then show ?case by simp
next
  case (Cons b bs)
  have "distinct (downloadLog (snd (downloadBatch h pt acc b)) @ concat bs)"
    using Cons.prems by (auto simp: downloadBatch_log)
  then show ?case using Cons.IH by simp
qed

lemma concat_batches: "0 < n \<Longrightarrow> concat (batches n xs) = xs"
proof (induction n xs rule: batches.induct)
  case (1 n xs)
  show ?case
  proof (cases "xs = []")
    case True
    then show ?thesis by (subst batches.simps) simp
  next
    case False
    then show ?thesis using 1 by (subst batches.simps) simp
  qed
qed

lemma batchDownloadImages_numbered:
  "namesNumbered g \<Longrightarrow> namesNumbered (snd (batchDownloadImages h g urls pt))"
  by (simp add: batchDownloadImages_def foldl_downloadBatch_numbered)

lemma batchDownloadImages_log:
  "distinct (downloadLog g @ urls) \<Longrightarrow> distinct (downloadLog (snd (batchDownloadImages h g urls pt)))"
  unfolding batchDownloadImages_def
  by (rule foldl_downloadBatch_log) (simp add: concat_batches)

lemma freshGenerator_numbered: "namesNumbered freshGenerator"
  by (simp add: namesNumbered_def freshGenerator_def)

lemma namesNumbered_distinct: "namesNumbered g \<Longrightarrow> distinct (nameLog g)"
  by (auto simp: namesNumbered_def distinct_map)

lemma generateCompleteMarkdown_numbered:
  "namesNumbered (generatorAfter (generateCompleteMarkdown h t))"
proof -
  have "namesNumbered (snd (batchDownloadImages h freshGenerator us pt))" for us pt
    by (rule batchDownloadImages_numbered[OF freshGenerator_numbered])
  then have "namesNumbered ((snd (batchDownloadImages h freshGenerator us pt))\<lparr>failedImages := fs\<rparr>)" for us pt fs
    by (simp add: namesNumbered_def)
  moreover have "namesNumbered (freshGenerator\<lparr>failedImages := fs\<rparr>)" for fs
    by (simp add: namesNumbered_def freshGenerator_def)
  ultimately show ?thesis
    using freshGenerator_numbered
    by (simp add: generateCompleteMarkdown_def Let_def batchFetchPages_def)
qed

text \<open>
  Claim C8. \<open>generateImageFileName\<close> returns \<open>img_\<close>, the incremented counter, \<open>_\<close>, the
  hash of the URL, a dot and the extension; the counter grows by one with every call; the
  hash part is a function of the URL alone and consists of exactly 8 hexadecimal digits;
  and in every run of the Markdown generation the file names handed out are pairwise
  distinct, whatever the host answers and in whatever order the downloads complete.
\<close>

theorem image_file_names_distinct:
  "fst (generateImageFileName g u e) =
     js ''img_'' @ showNat (imageCounter g + 1) @ js ''_'' @ hashHex u @ js ''.'' @ e \<and>
   imageCounter (snd (generateImageFileName g u e)) = imageCounter g + 1 \<and>
   length (hashHex u) = 8 \<and> list_all isHexDigit (hashHex u) \<and>
   distinct (nameLog (generatorAfter (generateCompleteMarkdown h t)))"
  using hashHex_form[of u] namesNumbered_distinct[OF generateCompleteMarkdown_numbered[of h t]]
  by (simp add: generateImageFileName_fields)

lemma sample_names:
  "nameLog (generatorAfter (generateCompleteMarkdown sampleHost (js ''Doc''))) =
     [js ''img_1_7e991304.png'', js ''img_2_7e7ce402.png'']"
  by code_simp

theorem image_file_names_distinct_witness:
  "nameLog (generatorAfter (generateCompleteMarkdown sampleHost (js ''Doc''))) =
     [js ''img_1_7e991304.png'', js ''img_2_7e7ce402.png''] \<and>
   hashHex (js ''https://duruofu.github.io/x.png'') = js ''7e7ce402'' \<and>
   length (hashHex (js ''https://duruofu.github.io/x.png'')) = 8 \<and>
   distinct (nameLog (generatorAfter (generateCompleteMarkdown sampleHost (js ''Doc''))))"
proof -
  have "hashHex (js ''https://duruofu.github.io/x.png'') = js ''7e7ce402''" by code_simp
  then show ?thesis
    using image_file_names_distinct[of freshGenerator "js ''https://duruofu.github.io/x.png''"
        "js ''png''" sampleHost "js ''Doc''"] sample_names
    by simp
qed

section \<open>Path rewriting, segment by segment\<close>














lemma passes_simps:
  "passes p [] segs = segs"
  "passes p (e # es) segs = passes p es (concat (map (p e) segs))"
  by (simp_all add: passes_def)

lemma passes_append: "passes p es (a @ b) = passes p es a @ passes p es b"
  by (induction es arbitrary: a b) (simp_all add: passes_simps)

lemma passes_Nil: "passes p es [] = []"
  by (induction es) (simp_all add: passes_simps)

lemma passes_concat: "passes p es segs = concat (map (\<lambda>s. passes p es [s]) segs)"
proof (induction segs)
  case Nil
  show ?case by (simp add: passes_Nil)
next
  case (Cons s segs)
  have "passes p es (s # segs) = passes p es [s] @ passes p es segs"
    using passes_append[of p es "[s]" segs] by simp
  then show ?case using Cons by simp
qed















lemma find_None_map: "(find (\<lambda>f. g f = x) fs = None) = (x \<notin> set (map g fs))"
  by (auto simp: find_None_iff)




section \<open>Batch download\<close>



















lemma mset_sort_key_tasks: "mset (sort_key f xs) = mset xs"
  by simp






















section \<open>The image pipeline of a run\<close>
































section \<open>The sample site with failing images, evaluated\<close>





























section \<open>An image shown on two pages\<close>




section \<open>The failure report and the warning blocks\<close>




end
